theory Spec2Isabelle
  imports Main "HOL-Library.Log_Nat"
begin

section \<open>The Wayland window model of libqtile/backend/wayland/window.py\<close>

text \<open>
  The Python objects live in a store: a window is named by a reference (its object
  identity, which is what \<^verbatim>\<open>in\<close> and \<^verbatim>\<open>list.remove\<close> compare), the
  compositor \<^verbatim>\<open>Core\<close> holds the stacking list \<^verbatim>\<open>mapped_windows\<close>, and every
  output holds one list per layer. A method of a window takes the reference of
  \<^verbatim>\<open>self\<close> and the state, and returns the state it leaves behind together with the
  exception it raised, if any: a Python exception does not undo the assignments made
  before it.

  Calls into collaborators that are not part of the file are kept as records of the call
  (\<^verbatim>\<open>hook.fire\<close>, \<^verbatim>\<open>group.mark_floating\<close>, \<^verbatim>\<open>surface.set_size\<close>,
  \<^verbatim>\<open>surface.configure\<close>), without what the collaborator may do in turn, or left out
  where they act on the seat, the logger or the damage tracking of an output only
  (\<^verbatim>\<open>damage\<close>, \<^verbatim>\<open>core.focus_window\<close>, \<^verbatim>\<open>seat.keyboard_clear_focus\<close>).
\<close>

subsection \<open>Data\<close>

type_synonym ref = nat

type_synonym colour = string

text \<open>
  Modelled from the spec: the enum \<^verbatim>\<open>base.FloatStates\<close> is declared outside the file;
  the spec gives it the five states the window module uses.
\<close>

datatype FloatStates = NOT_FLOATING | FLOATING | MAXIMIZED | FULLSCREEN | MINIMIZED

datatype exn = ValueError | AttributeError | IndexError | TypeError | OverflowError

text \<open>The four layers of the layer shell; they index \<^verbatim>\<open>Output.layers\<close>.\<close>

datatype layer = BACKGROUND | BOTTOM | TOP | OVERLAY

text \<open>The class of a window object: \<^verbatim>\<open>Static\<close> overrides the \<^verbatim>\<open>mapped\<close>
  setter, the map and unmap handlers and \<^verbatim>\<open>place\<close>; \<^verbatim>\<open>Internal\<close> overrides
  nothing.\<close>

datatype klass = Window | Internal | Static

text \<open>The \<^verbatim>\<open>margin\<close> argument of \<^verbatim>\<open>place\<close>: an int or a sequence
  \<^verbatim>\<open>[top, right, bottom, left]\<close>.\<close>

datatype margin = Scalar int | Sides "int list"

record screen =
  scr_index :: nat
  scr_x :: int
  scr_y :: int
  scr_width :: int
  scr_height :: int
  scr_dx :: int
  scr_dy :: int
  scr_dwidth :: int
  scr_dheight :: int
  scr_group :: nat

record wgroup =
  grp_name :: nat
  grp_screen :: "screen option"

text \<open>
  A window object. \<open>group\<close> is \<^verbatim>\<open>_group\<close>, with \<open>None\<close> for the falsy values
  \<^verbatim>\<open>0\<close> and \<^verbatim>\<open>None\<close>, which have no attributes; \<open>mapped\<close> is \<^verbatim>\<open>_mapped\<close>,
  \<open>win_x\<close> and \<open>win_y\<close> are \<^verbatim>\<open>x\<close> and \<^verbatim>\<open>y\<close>, \<open>win_output\<close> is
  \<^verbatim>\<open>output\<close> and \<open>client_layer\<close> is \<^verbatim>\<open>surface.client_pending.layer\<close> (the last
  two are read for a layer surface only). \<open>width\<close> and \<open>height\<close> are
  the size the surface reports (\<^verbatim>\<open>surface.surface.current\<close>), which only the client
  changes. \<open>set_size_calls\<close> and \<open>configure_calls\<close> are the sizes requested from the
  surface so far, the latest last.
\<close>

record window =
  kind :: klass
  group :: "wgroup option"
  mapped :: bool
  win_x :: int
  win_y :: int
  width :: int
  height :: int
  float_state :: FloatStates
  float_x :: int
  float_y :: int
  float_width :: int
  float_height :: int
  borderwidth :: int
  bordercolor :: colour
  is_layer :: bool
  win_output :: nat
  client_layer :: layer
  set_size_calls :: "(int \<times> int) list"
  configure_calls :: "(int \<times> int) list"

text \<open>
  The state shared by the windows: the store, \<^verbatim>\<open>Core.mapped_windows\<close>, the
  \<^verbatim>\<open>layers\<close> of every output, the number of \<^verbatim>\<open>hook.fire('float_change')\<close> calls,
  the calls of \<^verbatim>\<open>group.mark_floating\<close>, and of \<^verbatim>\<open>Qtile\<close> the function
  \<^verbatim>\<open>find_closest_screen\<close> and the focused screen.
\<close>

record core =
  wins :: "ref \<Rightarrow> window"
  mapped_windows :: "ref list"
  layers :: "nat \<Rightarrow> layer \<Rightarrow> ref list"
  float_change :: nat
  mark_floating_calls :: "(ref \<times> bool) list"
  find_closest_screen :: "int \<Rightarrow> int \<Rightarrow> screen option"
  current_screen :: nat

type_synonym outcome = "exn option \<times> core"

definition upd :: "ref \<Rightarrow> (window \<Rightarrow> window) \<Rightarrow> core \<Rightarrow> core" where
  "upd r f s = s\<lparr>wins := (wins s)(r := f (wins s r))\<rparr>"

subsection \<open>The mapped flag and the stacking lists\<close>

text \<open>
  \<^verbatim>\<open>if mapped: if self not in tracker: tracker.append(self)\<close>
  \<^verbatim>\<open>else: if self in tracker: tracker.remove(self)\<close>;
  \<^verbatim>\<open>list.remove\<close> takes the first occurrence out.
\<close>

definition track :: "ref \<Rightarrow> bool \<Rightarrow> ref list \<Rightarrow> ref list" where
  "track r m tracker =
     (if m then (if r \<notin> set tracker then tracker @ [r] else tracker)
      else (if r \<in> set tracker then remove1 r tracker else tracker))"

text \<open>
  Modelled from the spec: \<^verbatim>\<open>Output.organise_layers\<close> is not part of the file. The
  spec calls it the layer reflow, run whenever a layer window maps or unmaps; it lays the
  layer windows of the output out again and is taken to leave the windows modelled here,
  their flags and the membership of the lists as they are.
\<close>

definition organise_layers :: "nat \<Rightarrow> core \<Rightarrow> core" where
  "organise_layers out s = s"

definition Window_set_mapped :: "ref \<Rightarrow> bool \<Rightarrow> core \<Rightarrow> core" where
  "Window_set_mapped r m s =
     (let s1 = upd r (\<lambda>w. w\<lparr>mapped := m\<rparr>) s
      in s1\<lparr>mapped_windows := track r m (mapped_windows s1)\<rparr>)"

definition Static_set_mapped :: "ref \<Rightarrow> bool \<Rightarrow> core \<Rightarrow> core" where
  "Static_set_mapped r m s =
     (let s1 = upd r (\<lambda>w. w\<lparr>mapped := m\<rparr>) s;
          w = wins s1 r
      in if is_layer w
         then organise_layers (win_output w)
                (s1\<lparr>layers := (layers s1)(win_output w :=
                   (layers s1 (win_output w))(client_layer w :=
                      track r m (layers s1 (win_output w) (client_layer w))))\<rparr>)
         else s1\<lparr>mapped_windows := track r m (mapped_windows s1)\<rparr>)"

text \<open>The assignment \<^verbatim>\<open>self.mapped = ...\<close>, dispatched on the class of the object.\<close>

definition set_mapped :: "ref \<Rightarrow> bool \<Rightarrow> core \<Rightarrow> core" where
  "set_mapped r m s =
     (if kind (wins s r) = Static then Static_set_mapped r m s else Window_set_mapped r m s)"

definition Window_on_map :: "ref \<Rightarrow> core \<Rightarrow> core" where
  "Window_on_map r s = Window_set_mapped r True s"

definition Window_on_unmap :: "ref \<Rightarrow> core \<Rightarrow> core" where
  "Window_on_unmap r s = Window_set_mapped r False s"

definition Static_on_map :: "ref \<Rightarrow> core \<Rightarrow> core" where
  "Static_on_map r s =
     (let s1 = Static_set_mapped r True s
      in if is_layer (wins s1 r) then organise_layers (win_output (wins s1 r)) s1 else s1)"

definition Static_on_unmap :: "ref \<Rightarrow> core \<Rightarrow> core" where
  "Static_on_unmap r s =
     (let s1 = Static_set_mapped r False s
      in if is_layer (wins s1 r) then organise_layers (win_output (wins s1 r)) s1 else s1)"

text \<open>The listeners of the surface's map and unmap signals.\<close>

definition on_map :: "ref \<Rightarrow> core \<Rightarrow> core" where
  "on_map r s = (if kind (wins s r) = Static then Static_on_map r s else Window_on_map r s)"

definition on_unmap :: "ref \<Rightarrow> core \<Rightarrow> core" where
  "on_unmap r s =
     (if kind (wins s r) = Static then Static_on_unmap r s else Window_on_unmap r s)"

text \<open>\<^verbatim>\<open>hide\<close> and \<^verbatim>\<open>unhide\<close> emit the signal, which runs the listener.\<close>

definition hide :: "ref \<Rightarrow> core \<Rightarrow> core" where
  "hide r s = (if mapped (wins s r) then on_unmap r s else s)"

definition unhide :: "ref \<Rightarrow> core \<Rightarrow> core" where
  "unhide r s = (if \<not> mapped (wins s r) then on_map r s else s)"

subsection \<open>Placement\<close>

text \<open>
  \<^verbatim>\<open>paint_borders(color, width)\<close>: \<^verbatim>\<open>if color:\<close> keeps the old colour for
  \<^verbatim>\<open>None\<close> and for every other falsy colour, which for a string is the empty one.
\<close>

definition paint_borders :: "ref \<Rightarrow> colour option \<Rightarrow> int \<Rightarrow> core \<Rightarrow> core" where
  "paint_borders r color bw s =
     upd r (\<lambda>w. (case color of
                    Some c \<Rightarrow> (if c \<noteq> [] then w\<lparr>bordercolor := c\<rparr> else w)
                  | None \<Rightarrow> w)
                  \<lparr>borderwidth := bw\<rparr>) s"

text \<open>
  The margin adjustment at the head of \<^verbatim>\<open>Window.place\<close>. A sequence shorter than
  four raises at \<^verbatim>\<open>margin[3]\<close>, the first subscript.
\<close>

definition apply_margin ::
  "margin option \<Rightarrow> int \<times> int \<times> int \<times> int \<Rightarrow> exn + int \<times> int \<times> int \<times> int" where
  "apply_margin margin g =
     (case g of (x, y, w, h) \<Rightarrow>
        (case margin of
           None \<Rightarrow> Inr (x, y, w, h)
         | Some mg \<Rightarrow>
             (let ms = (case mg of Scalar n \<Rightarrow> [n, n, n, n] | Sides l \<Rightarrow> l)
              in if length ms < 4 then Inl IndexError
                 else Inr (x + ms ! 3, y + ms ! 0,
                           w - (ms ! 1 + ms ! 3), h - (ms ! 0 + ms ! 2)))))"

definition Window_place ::
  "ref \<Rightarrow> int \<Rightarrow> int \<Rightarrow> int \<Rightarrow> int \<Rightarrow> int \<Rightarrow> colour option \<Rightarrow> bool \<Rightarrow> margin option
     \<Rightarrow> core \<Rightarrow> outcome" where
  "Window_place r x y w h bw bc above' margin s =
     (case apply_margin margin (x, y, w, h) of
        Inl e \<Rightarrow> (Some e, s)
      | Inr (x', y', w', h') \<Rightarrow>
          (let s1 = upd r (\<lambda>v. v\<lparr>win_x := x', win_y := y',
                                  set_size_calls := set_size_calls v @ [(w', h')]\<rparr>) s;
               s2 = paint_borders r bc bw s1
           in if above'
              then (if r \<in> set (mapped_windows s2)
                    then (None, s2\<lparr>mapped_windows := remove1 r (mapped_windows s2) @ [r]\<rparr>)
                    else (Some ValueError, s2))
              else (None, s2)))"

definition Static_place ::
  "ref \<Rightarrow> int \<Rightarrow> int \<Rightarrow> int \<Rightarrow> int \<Rightarrow> int \<Rightarrow> colour option \<Rightarrow> bool \<Rightarrow> margin option
     \<Rightarrow> core \<Rightarrow> outcome" where
  "Static_place r x y w h bw bc above' margin s =
     (let s1 = upd r (\<lambda>v. v\<lparr>win_x := x, win_y := y\<rparr>) s
      in if is_layer (wins s1 r)
         then (None, upd r (\<lambda>v. v\<lparr>configure_calls := configure_calls v @ [(w, h)]\<rparr>) s1)
         else (None, paint_borders r bc bw
                 (upd r (\<lambda>v. v\<lparr>set_size_calls := set_size_calls v @ [(w, h)]\<rparr>) s1)))"

definition place ::
  "ref \<Rightarrow> int \<Rightarrow> int \<Rightarrow> int \<Rightarrow> int \<Rightarrow> int \<Rightarrow> colour option \<Rightarrow> bool \<Rightarrow> margin option
     \<Rightarrow> core \<Rightarrow> outcome" where
  "place r x y w h bw bc above' margin s =
     (if kind (wins s r) = Static then Static_place r x y w h bw bc above' margin s
      else Window_place r x y w h bw bc above' margin s)"

subsection \<open>The floating state machine\<close>

text \<open>
  Modelled from the spec: \<^verbatim>\<open>_Group.mark_floating\<close> is not part of the file; the call
  notifies the workspace and is recorded.
\<close>

definition mark_floating :: "ref \<Rightarrow> bool \<Rightarrow> core \<Rightarrow> core" where
  "mark_floating r b s = s\<lparr>mark_floating_calls := mark_floating_calls s @ [(r, b)]\<rparr>"

text \<open>\<^verbatim>\<open>hook.fire('float_change')\<close>\<close>

definition fire_float_change :: "core \<Rightarrow> core" where
  "fire_float_change s = s\<lparr>float_change := Suc (float_change s)\<rparr>"

text \<open>
  \<^verbatim>\<open>_reconfigure_floating(x, y, w, h, new_float_state)\<close>. The geometry is \<open>None\<close>
  when the four arguments are (the minimized setter alone passes it, and that path does
  not read it); \<^verbatim>\<open>place\<close> on \<^verbatim>\<open>None\<close> fails at \<^verbatim>\<open>int(width)\<close>.
\<close>

definition reconfigure_floating ::
  "ref \<Rightarrow> (int \<times> int \<times> int \<times> int) option \<Rightarrow> FloatStates \<Rightarrow> core \<Rightarrow> outcome" where
  "reconfigure_floating r geom new_float_state s =
     (case (if new_float_state = MINIMIZED then (None, hide r s)
            else (case geom of
                    None \<Rightarrow> (Some TypeError, s)
                  | Some (x, y, w, h) \<Rightarrow>
                      place r x y w h (borderwidth (wins s r)) (Some (bordercolor (wins s r)))
                        True None s)) of
        (Some e, s1) \<Rightarrow> (Some e, s1)
      | (None, s1) \<Rightarrow>
          (if float_state (wins s1 r) \<noteq> new_float_state
           then (let s2 = upd r (\<lambda>v. v\<lparr>float_state := new_float_state\<rparr>) s1;
                     s3 = (if group (wins s2 r) \<noteq> None then mark_floating r True s2 else s2)
                 in (None, fire_float_change s3))
           else (None, s1)))"

definition enablefloating ::
  "ref \<Rightarrow> (int \<times> int \<times> int \<times> int) option \<Rightarrow> FloatStates \<Rightarrow> core \<Rightarrow> outcome" where
  "enablefloating r geom new_float_state s = reconfigure_floating r geom new_float_state s"

text \<open>The \<^verbatim>\<open>floating\<close> setter.\<close>

definition set_floating :: "ref \<Rightarrow> bool \<Rightarrow> core \<Rightarrow> outcome" where
  "set_floating r do_float s =
     (let v = wins s r in
      if do_float \<and> float_state v = NOT_FLOATING then
        (case (case group v of None \<Rightarrow> None | Some g \<Rightarrow> grp_screen g) of
           Some scr \<Rightarrow>
             enablefloating r
               (Some (scr_x scr + float_x v, scr_y scr + float_y v,
                      float_width v, float_height v)) FLOATING s
         | None \<Rightarrow> (None, upd r (\<lambda>v. v\<lparr>float_state := FLOATING\<rparr>) s))
      else if \<not> do_float \<and> float_state v \<noteq> NOT_FLOATING then
        (let s1 = (if float_state v = FLOATING
                   then upd r (\<lambda>v. v\<lparr>float_width := width v, float_height := height v\<rparr>) s
                   else s);
             s2 = upd r (\<lambda>v. v\<lparr>float_state := NOT_FLOATING\<rparr>) s1
         in case group (wins s2 r) of
              None \<Rightarrow> (Some AttributeError, s2)
            | Some g \<Rightarrow> (None, fire_float_change (mark_floating r False s2)))
      else (None, s))"

text \<open>
  \<^verbatim>\<open>screen = self.group.screen or self.qtile.find_closest_screen(self.x, self.y)\<close>:
  the attribute of a missing group raises, as does an attribute of the screen when none
  is found.
\<close>

definition pick_screen :: "ref \<Rightarrow> core \<Rightarrow> exn + screen" where
  "pick_screen r s =
     (case group (wins s r) of
        None \<Rightarrow> Inl AttributeError
      | Some g \<Rightarrow>
          (case (case grp_screen g of
                   Some scr \<Rightarrow> Some scr
                 | None \<Rightarrow> find_closest_screen s (win_x (wins s r)) (win_y (wins s r))) of
             None \<Rightarrow> Inl AttributeError
           | Some scr \<Rightarrow> Inr scr))"

text \<open>The \<^verbatim>\<open>fullscreen\<close> setter.\<close>

definition set_fullscreen :: "ref \<Rightarrow> bool \<Rightarrow> core \<Rightarrow> outcome" where
  "set_fullscreen r do_full s =
     (if do_full then
        (case pick_screen r s of
           Inl e \<Rightarrow> (Some e, s)
         | Inr scr \<Rightarrow>
             enablefloating r
               (Some (scr_x scr, scr_y scr, scr_width scr, scr_height scr)) FULLSCREEN s)
      else if float_state (wins s r) = FULLSCREEN then set_floating r False s
      else (None, s))"

text \<open>The \<^verbatim>\<open>maximized\<close> setter.\<close>

definition set_maximized :: "ref \<Rightarrow> bool \<Rightarrow> core \<Rightarrow> outcome" where
  "set_maximized r do_maximize s =
     (if do_maximize then
        (case pick_screen r s of
           Inl e \<Rightarrow> (Some e, s)
         | Inr scr \<Rightarrow>
             enablefloating r
               (Some (scr_dx scr, scr_dy scr, scr_dwidth scr, scr_dheight scr)) MAXIMIZED s)
      else if float_state (wins s r) = MAXIMIZED then set_floating r False s
      else (None, s))"

text \<open>The \<^verbatim>\<open>minimized\<close> setter.\<close>

definition set_minimized :: "ref \<Rightarrow> bool \<Rightarrow> core \<Rightarrow> outcome" where
  "set_minimized r do_minimize s =
     (if do_minimize then
        (if float_state (wins s r) \<noteq> MINIMIZED then enablefloating r None MINIMIZED s
         else (None, s))
      else if float_state (wins s r) = MINIMIZED then set_floating r False s
      else (None, s))"

text \<open>
  \<^verbatim>\<open>_tweak_float\<close>. The explicit values are optional, the deltas default to 0.

  Modelled from the spec: \<^verbatim>\<open>group.remove\<close>, \<^verbatim>\<open>screen.group.add\<close> and
  \<^verbatim>\<open>qtile.focus_screen\<close> are not part of the file; the window is moved to the workspace
  of the screen its centre is on, and that screen becomes the active one.
\<close>

definition transfer_group :: "ref \<Rightarrow> screen \<Rightarrow> core \<Rightarrow> core" where
  "transfer_group r scr s =
     (upd r (\<lambda>v. v\<lparr>group := Some \<lparr>grp_name = scr_group scr, grp_screen = Some scr\<rparr>\<rparr>) s)
       \<lparr>current_screen := scr_index scr\<rparr>"

definition tweak_float ::
  "ref \<Rightarrow> int option \<Rightarrow> int option \<Rightarrow> int \<Rightarrow> int \<Rightarrow> int option \<Rightarrow> int option \<Rightarrow> int \<Rightarrow> int
     \<Rightarrow> core \<Rightarrow> outcome" where
  "tweak_float r x y dx dy w h dw dh s =
     (let v = wins s r;
          x1 = (case x of None \<Rightarrow> win_x v | Some a \<Rightarrow> a) + dx;
          y1 = (case y of None \<Rightarrow> win_y v | Some a \<Rightarrow> a) + dy;
          w1 = (case w of None \<Rightarrow> width v | Some a \<Rightarrow> a) + dw;
          h1 = (case h of None \<Rightarrow> height v | Some a \<Rightarrow> a) + dh;
          h2 = (if h1 < 0 then 0 else h1);
          w2 = (if w1 < 0 then 0 else w1);
          found = find_closest_screen s (win_x v + width v div 2) (win_y v + height v div 2);
          s1 = (case (group v, found) of
                  (Some g, Some scr) \<Rightarrow>
                    if Some scr \<noteq> grp_screen g then transfer_group r scr s else s
                | _ \<Rightarrow> s)
      in reconfigure_floating r (Some (x1, y1, w2, h2)) FLOATING s1)"

subsection \<open>What an observer of a window sees\<close>

text \<open>The rectangle last applied to a window: the stored origin and the size last
  requested from its surface with \<^verbatim>\<open>set_size\<close>.\<close>

definition applied_rect :: "window \<Rightarrow> int \<times> int \<times> int \<times> int" where
  "applied_rect v =
     (win_x v, win_y v, fst (last (set_size_calls v)), snd (last (set_size_calls v)))"

text \<open>
  The client commits a buffer of another size: \<^verbatim>\<open>surface.surface.current\<close> changes
  (the handler \<^verbatim>\<open>_on_commit\<close> itself only damages the outputs).
\<close>

definition surface_commit :: "ref \<Rightarrow> int \<Rightarrow> int \<Rightarrow> core \<Rightarrow> core" where
  "surface_commit r w h s = upd r (\<lambda>v. v\<lparr>width := w, height := h\<rparr>) s"

subsection \<open>Construction and sample states\<close>

text \<open>
  \<^verbatim>\<open>Window.__init__\<close> for a surface whose current size is \<open>w\<close> by \<open>h\<close>: no group
  yet, not mapped, at the origin, tiled, and the float memory taken from the position and
  the size of the surface. The border width is left to the base class and taken as 0.
\<close>

definition Window_init :: "int \<Rightarrow> int \<Rightarrow> window" where
  "Window_init w h =
     \<lparr>kind = Window, group = None, mapped = False, win_x = 0, win_y = 0,
      width = w, height = h, float_state = NOT_FLOATING,
      float_x = 0, float_y = 0, float_width = w, float_height = h,
      borderwidth = 0, bordercolor = ''000000'', is_layer = False, win_output = 0,
      client_layer = BACKGROUND, set_size_calls = [], configure_calls = []\<rparr>"

text \<open>A compositor at its start: every window new and none mapped, with one screen and
  one workspace shown on it.\<close>

definition screen0 :: screen where
  "screen0 = \<lparr>scr_index = 0, scr_x = 0, scr_y = 0, scr_width = 1920, scr_height = 1080,
              scr_dx = 0, scr_dy = 24, scr_dwidth = 1920, scr_dheight = 1056,
              scr_group = 1\<rparr>"

definition group1 :: wgroup where
  "group1 = \<lparr>grp_name = 1, grp_screen = Some screen0\<rparr>"

definition core0 :: core where
  "core0 = \<lparr>wins = (\<lambda>r. Window_init 640 480), mapped_windows = [],
            layers = (\<lambda>out l. []), float_change = 0, mark_floating_calls = [],
            find_closest_screen = (\<lambda>x y. Some screen0), current_screen = 0\<rparr>"

text \<open>The same compositor when no screen can be found for any point.\<close>

definition core_no_screen :: core where
  "core_no_screen = core0\<lparr>find_closest_screen := (\<lambda>x y. None)\<rparr>"

text \<open>Window 0 has joined the workspace and its surface has been mapped.\<close>

definition core_mapped :: core where
  "core_mapped = on_map 0 (upd 0 (\<lambda>v. v\<lparr>group := Some group1\<rparr>) core0)"

text \<open>Window 2 is a regular window made static and moved to the workspace.\<close>

definition core_static :: core where
  "core_static =
     upd 2 (\<lambda>v. v\<lparr>kind := Static, float_state := FLOATING, group := Some group1\<rparr>) core0"

subsection \<open>The four setters of the floating state\<close>

datatype setter = Floating bool | Fullscreen bool | Maximized bool | Minimized bool

fun call_setter :: "setter \<Rightarrow> ref \<Rightarrow> core \<Rightarrow> outcome" where
  "call_setter (Floating b) r s = set_floating r b s"
| "call_setter (Fullscreen b) r s = set_fullscreen r b s"
| "call_setter (Maximized b) r s = set_maximized r b s"
| "call_setter (Minimized b) r s = set_minimized r b s"

text \<open>The branch of the floating setter taken "early, e.g. from a hook": the window has
  no workspace, or its workspace is on no screen.\<close>

definition no_screen_yet :: "window \<Rightarrow> bool" where
  "no_screen_yet v = ((case group v of None \<Rightarrow> None | Some g \<Rightarrow> grp_screen g) = None)"

subsection \<open>Map and unmap events\<close>

text \<open>The list a window is tracked in: the list of its layer on its output for a layer
  surface (a \<^verbatim>\<open>Static\<close> with \<^verbatim>\<open>is_layer\<close>), \<^verbatim>\<open>Core.mapped_windows\<close> for every
  other window.\<close>

definition tracker :: "core \<Rightarrow> ref \<Rightarrow> ref list" where
  "tracker s r =
     (if kind (wins s r) = Static \<and> is_layer (wins s r)
      then layers s (win_output (wins s r)) (client_layer (wins s r))
      else mapped_windows s)"

text \<open>What reaches the flag: the map and the unmap signal of a surface, and an assignment
  to \<^verbatim>\<open>mapped\<close> (as \<^verbatim>\<open>Static.__init__\<close> makes for a layer surface).\<close>

datatype event = Map_signal ref | Unmap_signal ref | Set_mapped ref bool

fun handle :: "event \<Rightarrow> core \<Rightarrow> core" where
  "handle (Map_signal r) s = on_map r s"
| "handle (Unmap_signal r) s = on_unmap r s"
| "handle (Set_mapped r m) s = set_mapped r m s"

fun run :: "event list \<Rightarrow> core \<Rightarrow> core" where
  "run [] s = s"
| "run (e # es) s = run es (handle e s)"

text \<open>The lists hold no window twice and the flag of every window says whether the
  window is in its list; so it is when the compositor starts, with empty lists and no
  window mapped.\<close>

definition stacking_consistent :: "core \<Rightarrow> bool" where
  "stacking_consistent s =
     (distinct (mapped_windows s) \<and> (\<forall>out l. distinct (layers s out l))
      \<and> (\<forall>r. mapped (wins s r) = (r \<in> set (tracker s r))))"

text \<open>The sample compositor with window 1 a layer surface on the top layer of output 0.\<close>

definition core_layer :: core where
  "core_layer =
     upd 1 (\<lambda>v. v\<lparr>kind := Static, float_state := FLOATING, is_layer := True,
                    win_output := 0, client_layer := TOP\<rparr>) core0"

subsection \<open>Python floats\<close>

text \<open>
  The coordinates of the output layout are C doubles, Python floats. A finite double is
  modelled by the rational number it denotes, and the arithmetic on floats by the exact
  operation followed by the rounding of IEEE 754 binary64, to the nearest double, ties to
  the even significand.

  \<open>binade q\<close> is the exponent \<open>e\<close> with \<open>2 powi e \<le> \<bar>q\<bar> < 2 powi (e + 1)\<close> for
  \<open>q \<noteq> 0\<close>. \<open>to_double q\<close> is the double nearest to \<open>q\<close>: the spacing of the
  doubles around \<open>q\<close> is \<open>2 powi (e - 52)\<close>, and \<open>2 powi (- 1074)\<close> below the normal
  range; it is \<open>None\<close> when the rounding overflows the largest double.
\<close>

definition binade :: "rat \<Rightarrow> int" where
  "binade q =
     (case quotient_of q of
        (p, d) \<Rightarrow> (let k = bitlen \<bar>p\<bar> - bitlen d
                   in if 2 powi k \<le> \<bar>q\<bar> then k else k - 1))"

text \<open>\<^verbatim>\<open>round(x)\<close> of a float: the nearest int, a tie going to the even one.\<close>

definition py_round :: "rat \<Rightarrow> int" where
  "py_round q =
     (let f = \<lfloor>q\<rfloor>; d = q - of_int f
      in if d < 1 / 2 then f else if 1 / 2 < d then f + 1 else if even f then f else f + 1)"

definition to_double :: "rat \<Rightarrow> rat option" where
  "to_double q =
     (let u = 2 powi (max (binade q) (- 1022) - 52);
          r = of_int (py_round (q / u)) * u
      in if 2 ^ 1024 \<le> \<bar>r\<bar> then None else Some r)"

text \<open>
  \<^verbatim>\<open>round(a - b)\<close> for an int \<open>a\<close> and a float \<open>b\<close>: the int is converted to a float
  (OverflowError when it is too large), the difference is rounded to a double, and
  \<^verbatim>\<open>round\<close> of an infinite difference raises OverflowError.
\<close>

definition round_sub :: "int \<Rightarrow> rat \<Rightarrow> exn + int" where
  "round_sub a b =
     (case to_double (of_int a) of
        None \<Rightarrow> Inl OverflowError
      | Some fa \<Rightarrow>
          (case to_double (fa - b) of
             None \<Rightarrow> Inl OverflowError
           | Some d \<Rightarrow> Inr (py_round d)))"

subsection \<open>Popups\<close>

text \<open>A \<^verbatim>\<open>Box\<close> of wlroots. Its fields are C ints: storing a value outside their range
  raises OverflowError.\<close>

record box =
  box_x :: int
  box_y :: int
  box_width :: int
  box_height :: int

definition c_int :: "int \<Rightarrow> bool" where
  "c_int v = (- (2 ^ 31) \<le> v \<and> v < 2 ^ 31)"

text \<open>An \<^verbatim>\<open>Output\<close> object, with what \<^verbatim>\<open>get_geometry()\<close> returns.\<close>

record Output =
  out_id :: nat
  out_geometry :: box

text \<open>
  The output layout of the compositor, which belongs to wlroots: \<open>closest_point\<close> and
  \<open>output_at\<close> are its two methods the constructor calls, \<open>output_at\<close> returning the
  \<^verbatim>\<open>data\<close> of the output found.
\<close>

record output_layout =
  closest_point :: "int \<Rightarrow> int \<Rightarrow> rat \<times> rat"
  output_at :: "rat \<Rightarrow> rat \<Rightarrow> Output option"

text \<open>A popup object: its output, its constraint rectangle, and the rectangle passed to
  \<^verbatim>\<open>xdg_popup.unconstrain_from_box\<close>.\<close>

record XdgPopupWindow =
  popup_output :: Output
  output_box :: box
  unconstrained_from :: box

datatype parent = Window_parent window | Popup_parent XdgPopupWindow

text \<open>
  \<^verbatim>\<open>XdgPopupWindow.__init__(parent, xdg_popup)\<close>, with \<open>geometry\<close> what
  \<^verbatim>\<open>xdg_popup.base.get_geometry()\<close> returns. When no output is found at the point,
  \<^verbatim>\<open>wlr_output.data\<close> raises. \<^verbatim>\<open>box.x = round(box.x - lx)\<close> comes before
  \<^verbatim>\<open>box.y = round(box.y - ly)\<close>.
\<close>

definition XdgPopupWindow_init ::
  "output_layout \<Rightarrow> parent \<Rightarrow> box \<Rightarrow> exn + XdgPopupWindow" where
  "XdgPopupWindow_init layout parent geometry =
     (case (case parent of
              Popup_parent p \<Rightarrow> Inr (popup_output p, output_box p)
            | Window_parent v \<Rightarrow>
                (case closest_point layout (win_x v + box_x geometry)
                        (win_y v + box_y geometry) of
                   (lx, ly) \<Rightarrow>
                     (case output_at layout lx ly of
                        None \<Rightarrow> Inl AttributeError
                      | Some out \<Rightarrow>
                          (case round_sub (box_x (out_geometry out)) lx of
                             Inl e \<Rightarrow> Inl e
                           | Inr rx \<Rightarrow>
                               if \<not> c_int rx then Inl OverflowError
                               else (case round_sub (box_y (out_geometry out)) ly of
                                       Inl e \<Rightarrow> Inl e
                                     | Inr ry \<Rightarrow>
                                         if \<not> c_int ry then Inl OverflowError
                                         else Inr (out, (out_geometry out)
                                                \<lparr>box_x := rx, box_y := ry\<rparr>)))))) of
        Inl e \<Rightarrow> Inl e
      | Inr (out, b) \<Rightarrow> Inr \<lparr>popup_output = out, output_box = b, unconstrained_from = b\<rparr>)"

text \<open>Popups nested one in the other below a popup, the innermost last: each is made by
  the \<^verbatim>\<open>_on_new_popup\<close> handler of the one before.\<close>

fun nested_popups :: "output_layout \<Rightarrow> XdgPopupWindow \<Rightarrow> box list \<Rightarrow> exn + XdgPopupWindow" where
  "nested_popups layout p [] = Inr p"
| "nested_popups layout p (g # gs) =
     (case XdgPopupWindow_init layout (Popup_parent p) g of
        Inl e \<Rightarrow> Inl e
      | Inr q \<Rightarrow> nested_popups layout q gs)"

text \<open>A sample layout with one output of 1920 by 1080 at (100, 0), every point lying on
  it.\<close>

definition output0 :: Output where
  "output0 = \<lparr>out_id = 0,
     out_geometry = \<lparr>box_x = 100, box_y = 0, box_width = 1920, box_height = 1080\<rparr>\<rparr>"

definition layout0 :: output_layout where
  "layout0 = \<lparr>closest_point = (\<lambda>x y. (of_int x, of_int y)),
              output_at = (\<lambda>x y. Some output0)\<rparr>"

section \<open>Basic facts about the store\<close>

lemma wins_upd: "wins (upd r f s) = (wins s)(r := f (wins s r))"
  by (simp add: upd_def)

lemma upd_fields:
  "mapped_windows (upd r f s) = mapped_windows s"
  "layers (upd r f s) = layers s"
  "float_change (upd r f s) = float_change s"
  "mark_floating_calls (upd r f s) = mark_floating_calls s"
  "find_closest_screen (upd r f s) = find_closest_screen s"
  "current_screen (upd r f s) = current_screen s"
  by (simp_all add: upd_def)

section \<open>Placement with a margin\<close>

lemma apply_margin_Sides:
  "apply_margin (Some (Sides (t # rt # b # l # rest))) (x, y, w, h)
     = Inr (x + l, y + t, w - (rt + l), h - (t + b))"
  by (simp add: apply_margin_def)

lemma apply_margin_Scalar:
  "apply_margin (Some (Scalar m)) (x, y, w, h)
     = Inr (x + m, y + m, w - (m + m), h - (m + m))"
  by (simp add: apply_margin_def)

text \<open>
  C7. \<^verbatim>\<open>Window.place\<close> with a four-sided margin \<^verbatim>\<open>[top, right, bottom, left]\<close>
  stores the origin moved by (left, top) and requests from the surface the size shrunk by
  left + right and top + bottom, whether or not the call goes on to raise the window; a
  scalar margin is the same margin on all four sides; margin 10 on the rectangle
  (0, 0, 100, 100) applies (10, 10, 80, 80).
\<close>

theorem place_margin_shrinks:
  "win_x (wins (snd (Window_place r x y w h bw bc ab
       (Some (Sides (t # rt # b # l # rest))) s)) r) = x + l
   \<and> win_y (wins (snd (Window_place r x y w h bw bc ab
       (Some (Sides (t # rt # b # l # rest))) s)) r) = y + t
   \<and> set_size_calls (wins (snd (Window_place r x y w h bw bc ab
       (Some (Sides (t # rt # b # l # rest))) s)) r)
       = set_size_calls (wins s r) @ [(w - (l + rt), h - (t + b))]
   \<and> Window_place r x y w h bw bc ab (Some (Scalar m)) s
       = Window_place r x y w h bw bc ab (Some (Sides [m, m, m, m])) s
   \<and> applied_rect (wins (snd (Window_place r 0 0 100 100 bw bc ab (Some (Scalar 10)) s)) r)
       = (10, 10, 80, 80)"
  by (simp add: Window_place_def apply_margin_Sides apply_margin_Scalar paint_borders_def
      applied_rect_def wins_upd upd_fields Let_def split: option.splits)

section \<open>Frame lemmas\<close>

lemma organise_layers_id [simp]: "organise_layers out s = s"
  by (simp add: organise_layers_def)

lemma wins_set_mapped:
  "wins (set_mapped r m s) = (wins s)(r := (wins s r)\<lparr>mapped := m\<rparr>)"
  by (simp add: set_mapped_def Static_set_mapped_def Window_set_mapped_def Let_def wins_upd)

lemma wins_on_unmap:
  "wins (on_unmap r s) = (wins s)(r := (wins s r)\<lparr>mapped := False\<rparr>)"
  by (simp add: on_unmap_def Static_on_unmap_def Window_on_unmap_def Static_set_mapped_def
      Window_set_mapped_def Let_def wins_upd)

lemma wins_hide:
  "wins (hide r s) = (wins s)(r := (wins s r)\<lparr>mapped := False\<rparr>)"
  by (auto simp add: hide_def wins_on_unmap fun_eq_iff)

lemma hide_fields:
  "float_change (hide r s) = float_change s"
  "mark_floating_calls (hide r s) = mark_floating_calls s"
  "find_closest_screen (hide r s) = find_closest_screen s"
  "current_screen (hide r s) = current_screen s"
  by (simp_all add: hide_def on_unmap_def Static_on_unmap_def Window_on_unmap_def
      Static_set_mapped_def Window_set_mapped_def Let_def upd_fields)

text \<open>What \<^verbatim>\<open>place\<close> leaves alone.\<close>

lemma place_fields:
  "float_change (snd (place r x y w h bw bc ab mg s)) = float_change s"
  "mark_floating_calls (snd (place r x y w h bw bc ab mg s)) = mark_floating_calls s"
  "find_closest_screen (snd (place r x y w h bw bc ab mg s)) = find_closest_screen s"
  "current_screen (snd (place r x y w h bw bc ab mg s)) = current_screen s"
  "layers (snd (place r x y w h bw bc ab mg s)) = layers s"
  by (simp_all add: place_def Static_place_def Window_place_def paint_borders_def Let_def
      upd_fields split: sum.splits prod.splits)

lemma place_window_frame:
  "float_state (wins (snd (place r x y w h bw bc ab mg s)) q) = float_state (wins s q)"
  "group (wins (snd (place r x y w h bw bc ab mg s)) q) = group (wins s q)"
  "kind (wins (snd (place r x y w h bw bc ab mg s)) q) = kind (wins s q)"
  "is_layer (wins (snd (place r x y w h bw bc ab mg s)) q) = is_layer (wins s q)"
  "mapped (wins (snd (place r x y w h bw bc ab mg s)) q) = mapped (wins s q)"
  "width (wins (snd (place r x y w h bw bc ab mg s)) q) = width (wins s q)"
  "height (wins (snd (place r x y w h bw bc ab mg s)) q) = height (wins s q)"
  "float_x (wins (snd (place r x y w h bw bc ab mg s)) q) = float_x (wins s q)"
  "float_y (wins (snd (place r x y w h bw bc ab mg s)) q) = float_y (wins s q)"
  "float_width (wins (snd (place r x y w h bw bc ab mg s)) q) = float_width (wins s q)"
  "float_height (wins (snd (place r x y w h bw bc ab mg s)) q) = float_height (wins s q)"
  by (simp_all add: place_def Static_place_def Window_place_def paint_borders_def Let_def
      upd_fields wins_upd split: sum.splits prod.splits option.splits)



lemma place_requests:
  "(if kind (wins s r) = Static \<and> is_layer (wins s r)
    then configure_calls (wins (snd (place r x y w h bw bc ab None s)) r)
           = configure_calls (wins s r) @ [(w, h)]
    else set_size_calls (wins (snd (place r x y w h bw bc ab None s)) r)
           = set_size_calls (wins s r) @ [(w, h)])"
  by (simp add: place_def Static_place_def Window_place_def apply_margin_def
      paint_borders_def Let_def wins_upd upd_fields split: option.splits)

lemma reconfigure_requests:
  assumes "new \<noteq> MINIMIZED"
  shows "set_size_calls (wins (snd (reconfigure_floating r (Some (x, y, w, h)) new s)) r)
           = set_size_calls (wins (snd (place r x y w h (borderwidth (wins s r))
                 (Some (bordercolor (wins s r))) True None s)) r)"
    and "configure_calls (wins (snd (reconfigure_floating r (Some (x, y, w, h)) new s)) r)
           = configure_calls (wins (snd (place r x y w h (borderwidth (wins s r))
                 (Some (bordercolor (wins s r))) True None s)) r)"
  using assms
  by (simp_all add: reconfigure_floating_def mark_floating_def fire_float_change_def Let_def
      wins_upd upd_fields split: prod.splits option.splits)

lemma reconfigure_outcome:
  "new \<noteq> MINIMIZED \<Longrightarrow>
   fst (reconfigure_floating r (Some (x, y, w, h)) new s)
     = fst (place r x y w h (borderwidth (wins s r)) (Some (bordercolor (wins s r)))
         True None s)"
  by (simp add: reconfigure_floating_def Let_def split: prod.splits option.splits)

lemma transfer_group_frame:
  "kind (wins (transfer_group r scr s) q) = kind (wins s q)"
  "is_layer (wins (transfer_group r scr s) q) = is_layer (wins s q)"
  "set_size_calls (wins (transfer_group r scr s) q) = set_size_calls (wins s q)"
  "configure_calls (wins (transfer_group r scr s) q) = configure_calls (wins s q)"
  by (simp_all add: transfer_group_def wins_upd)


lemma tweak_float_as_reconfigure:
  "\<exists>s1 x1 y1.
     tweak_float r x y dx dy w h dw dh s
       = reconfigure_floating r
           (Some (x1, y1, max 0 ((case w of None \<Rightarrow> width (wins s r) | Some a \<Rightarrow> a) + dw),
                  max 0 ((case h of None \<Rightarrow> height (wins s r) | Some a \<Rightarrow> a) + dh)))
           FLOATING s1
     \<and> (s1 = s \<or> (\<exists>scr. s1 = transfer_group r scr s))"
proof (cases "\<exists>g scr. group (wins s r) = Some g
    \<and> find_closest_screen s (win_x (wins s r) + width (wins s r) div 2)
          (win_y (wins s r) + height (wins s r) div 2) = Some scr
    \<and> Some scr \<noteq> grp_screen g")
  case True
  then obtain g scr where "group (wins s r) = Some g"
    "find_closest_screen s (win_x (wins s r) + width (wins s r) div 2)
          (win_y (wins s r) + height (wins s r) div 2) = Some scr"
    "Some scr \<noteq> grp_screen g" by blast
  then have "tweak_float r x y dx dy w h dw dh s
       = reconfigure_floating r
           (Some ((case x of None \<Rightarrow> win_x (wins s r) | Some a \<Rightarrow> a) + dx,
                  (case y of None \<Rightarrow> win_y (wins s r) | Some a \<Rightarrow> a) + dy,
                  max 0 ((case w of None \<Rightarrow> width (wins s r) | Some a \<Rightarrow> a) + dw),
                  max 0 ((case h of None \<Rightarrow> height (wins s r) | Some a \<Rightarrow> a) + dh)))
           FLOATING (transfer_group r scr s)"
    by (simp add: tweak_float_def Let_def max_def)
  then show ?thesis by blast
next
  case False
  then have "tweak_float r x y dx dy w h dw dh s
       = reconfigure_floating r
           (Some ((case x of None \<Rightarrow> win_x (wins s r) | Some a \<Rightarrow> a) + dx,
                  (case y of None \<Rightarrow> win_y (wins s r) | Some a \<Rightarrow> a) + dy,
                  max 0 ((case w of None \<Rightarrow> width (wins s r) | Some a \<Rightarrow> a) + dw),
                  max 0 ((case h of None \<Rightarrow> height (wins s r) | Some a \<Rightarrow> a) + dh)))
           FLOATING s"
    by (auto simp add: tweak_float_def Let_def max_def split: option.splits)
  then show ?thesis by blast
qed

lemma reconfigure_applies:
  assumes "new \<noteq> MINIMIZED"
  shows "(if kind (wins s r) = Static \<and> is_layer (wins s r)
    then configure_calls (wins (snd (reconfigure_floating r (Some (x, y, w, h)) new s)) r)
           = configure_calls (wins s r) @ [(w, h)]
    else set_size_calls (wins (snd (reconfigure_floating r (Some (x, y, w, h)) new s)) r)
           = set_size_calls (wins s r) @ [(w, h)])"
  using place_requests [of s r x y w h "borderwidth (wins s r)"
      "Some (bordercolor (wins s r))" True] assms
  by (simp add: reconfigure_requests)

text \<open>
  C6. Whatever explicit values and deltas \<^verbatim>\<open>_tweak_float\<close> is given, the size it
  requests from the surface (with \<^verbatim>\<open>set_size\<close>, or \<^verbatim>\<open>configure\<close> for a layer
  surface) is the computed width and height clamped below at 0, so neither is negative;
  with \<^verbatim>\<open>dw = -1000\<close> on a 50 by 50 window the requested width is 0.
\<close>

theorem tweak_float_clamps:
  "(let W = max 0 ((case w of None \<Rightarrow> width (wins s r) | Some a \<Rightarrow> a) + dw);
        H = max 0 ((case h of None \<Rightarrow> height (wins s r) | Some a \<Rightarrow> a) + dh);
        s' = snd (tweak_float r x y dx dy w h dw dh s)
    in 0 \<le> W \<and> 0 \<le> H \<and>
       (if kind (wins s r) = Static \<and> is_layer (wins s r)
        then configure_calls (wins s' r) = configure_calls (wins s r) @ [(W, H)]
        else set_size_calls (wins s' r) = set_size_calls (wins s r) @ [(W, H)]))
   \<and> last (set_size_calls (wins (snd (tweak_float r None None 0 0 None None (- 1000) 0
          (upd r (\<lambda>v. v\<lparr>kind := Window, width := 50, height := 50\<rparr>) s))) r)) = (0, 50)"
proof -
  have main: "\<And>s w h dw dh x y dx dy.
       (if kind (wins s r) = Static \<and> is_layer (wins s r)
        then configure_calls (wins (snd (tweak_float r x y dx dy w h dw dh s)) r)
          = configure_calls (wins s r) @
             [(max 0 ((case w of None \<Rightarrow> width (wins s r) | Some a \<Rightarrow> a) + dw),
               max 0 ((case h of None \<Rightarrow> height (wins s r) | Some a \<Rightarrow> a) + dh))]
        else set_size_calls (wins (snd (tweak_float r x y dx dy w h dw dh s)) r)
          = set_size_calls (wins s r) @
             [(max 0 ((case w of None \<Rightarrow> width (wins s r) | Some a \<Rightarrow> a) + dw),
               max 0 ((case h of None \<Rightarrow> height (wins s r) | Some a \<Rightarrow> a) + dh))])"
  proof -
    fix s w h dw dh x y dx dy
    obtain s1 x1 y1 where
      eq: "tweak_float r x y dx dy w h dw dh s
         = reconfigure_floating r
           (Some (x1, y1, max 0 ((case w of None \<Rightarrow> width (wins s r) | Some a \<Rightarrow> a) + dw),
                  max 0 ((case h of None \<Rightarrow> height (wins s r) | Some a \<Rightarrow> a) + dh)))
           FLOATING s1"
      and s1: "s1 = s \<or> (\<exists>scr. s1 = transfer_group r scr s)"
      using tweak_float_as_reconfigure by blast
    from s1 have fr: "kind (wins s1 r) = kind (wins s r)"
      "is_layer (wins s1 r) = is_layer (wins s r)"
      "set_size_calls (wins s1 r) = set_size_calls (wins s r)"
      "configure_calls (wins s1 r) = configure_calls (wins s r)"
      by (auto simp: transfer_group_frame)
    show "?thesis s w h dw dh x y dx dy"
      using reconfigure_applies [of FLOATING s1 r x1 y1
          "max 0 ((case w of None \<Rightarrow> width (wins s r) | Some a \<Rightarrow> a) + dw)"
          "max 0 ((case h of None \<Rightarrow> height (wins s r) | Some a \<Rightarrow> a) + dh)"]
      by (simp add: eq fr)
  qed
  have ex: "last (set_size_calls (wins (snd (tweak_float r None None 0 0 None None (- 1000) 0
          (upd r (\<lambda>v. v\<lparr>kind := Window, width := 50, height := 50\<rparr>) s))) r)) = (0, 50)"
    using main [where s = "upd r (\<lambda>v. v\<lparr>kind := Window, width := 50, height := 50\<rparr>) s"
        and w = None and dw = "- 1000" and h = None and dh = 0 and x = None and y = None
        and dx = 0 and dy = 0]
    by (simp add: wins_upd)
  show ?thesis
    using main [where s = s and w = w and dw = dw and h = h and dh = dh and x = x and y = y
        and dx = dx and dy = dy] ex
    by (simp add: Let_def)
qed

section \<open>The floating state machine\<close>

lemma reconfigure_minimized:
  "reconfigure_floating r geom MINIMIZED s =
     (if float_state (wins s r) \<noteq> MINIMIZED
      then (None, fire_float_change
              ((if group (wins s r) \<noteq> None then mark_floating r True else (\<lambda>t. t))
                 (upd r (\<lambda>v. v\<lparr>float_state := MINIMIZED\<rparr>) (hide r s))))
      else (None, hide r s))"
  by (simp add: reconfigure_floating_def Let_def wins_hide wins_upd)

text \<open>
  C9. The minimized setter, called with true on a window that is not MINIMIZED, returns
  normally, hides the window (the flag is cleared and the stacking lists are those
  \<^verbatim>\<open>hide\<close> leaves), sets the state to MINIMIZED, requests no size from the surface,
  and leaves the stored position and the float memory as they were.
\<close>

theorem minimize_keeps_geometry:
  assumes "float_state (wins s r) \<noteq> MINIMIZED"
  shows "fst (set_minimized r True s) = None
    \<and> wins (snd (set_minimized r True s)) r
        = (wins s r)\<lparr>mapped := False, float_state := MINIMIZED\<rparr>
    \<and> float_state (wins (snd (set_minimized r True s)) r) = MINIMIZED
    \<and> \<not> mapped (wins (snd (set_minimized r True s)) r)
    \<and> mapped_windows (snd (set_minimized r True s)) = mapped_windows (hide r s)
    \<and> layers (snd (set_minimized r True s)) = layers (hide r s)
    \<and> set_size_calls (wins (snd (set_minimized r True s)) r) = set_size_calls (wins s r)
    \<and> configure_calls (wins (snd (set_minimized r True s)) r) = configure_calls (wins s r)
    \<and> float_x (wins (snd (set_minimized r True s)) r) = float_x (wins s r)
    \<and> float_y (wins (snd (set_minimized r True s)) r) = float_y (wins s r)
    \<and> float_width (wins (snd (set_minimized r True s)) r) = float_width (wins s r)
    \<and> float_height (wins (snd (set_minimized r True s)) r) = float_height (wins s r)
    \<and> win_x (wins (snd (set_minimized r True s)) r) = win_x (wins s r)
    \<and> win_y (wins (snd (set_minimized r True s)) r) = win_y (wins s r)"
  using assms
  by (simp add: set_minimized_def enablefloating_def reconfigure_minimized
      mark_floating_def fire_float_change_def wins_upd upd_fields wins_hide)

theorem minimize_keeps_geometry_witness:
  "float_state (wins (on_map 0 core0) 0) \<noteq> MINIMIZED
   \<and> fst (set_minimized 0 True (on_map 0 core0)) = None
   \<and> mapped_windows (on_map 0 core0) = [0]
   \<and> mapped_windows (snd (set_minimized 0 True (on_map 0 core0))) = []
   \<and> float_state (wins (snd (set_minimized 0 True (on_map 0 core0))) 0) = MINIMIZED
   \<and> float_width (wins (snd (set_minimized 0 True (on_map 0 core0))) 0) = 640"
  using minimize_keeps_geometry [of "on_map 0 core0" 0]
  by (simp add: core0_def Window_init_def on_map_def Window_on_map_def Window_set_mapped_def track_def
      hide_def on_unmap_def Window_on_unmap_def wins_upd upd_fields Let_def)

lemma set_floating_off:
  assumes "float_state (wins s r) \<noteq> NOT_FLOATING"
  shows "wins (snd (set_floating r False s)) r
     = (if float_state (wins s r) = FLOATING
        then (wins s r)\<lparr>float_state := NOT_FLOATING, float_width := width (wins s r),
                         float_height := height (wins s r)\<rparr>
        else (wins s r)\<lparr>float_state := NOT_FLOATING\<rparr>)"
    and "mapped_windows (snd (set_floating r False s)) = mapped_windows s"
    and "layers (snd (set_floating r False s)) = layers s"
  using assms
  by (simp_all add: set_floating_def Let_def wins_upd upd_fields mark_floating_def
      fire_float_change_def split: option.splits)

text \<open>
  C3. On a window in state FULLSCREEN the fullscreen setter called with false is the
  floating setter called with false; it leaves the state NOT_FLOATING and changes nothing
  else of the window: no position is stored, no size is requested, the float memory is
  not applied, the stacking lists stay. (The state is assigned before the workspace is
  notified, so this is the state left behind also when that notification raises for want
  of a workspace.)
\<close>

theorem fullscreen_off_not_floating:
  assumes "float_state (wins s r) = FULLSCREEN"
  shows "set_fullscreen r False s = set_floating r False s
    \<and> float_state (wins (snd (set_fullscreen r False s)) r) = NOT_FLOATING
    \<and> wins (snd (set_fullscreen r False s)) r = (wins s r)\<lparr>float_state := NOT_FLOATING\<rparr>
    \<and> mapped_windows (snd (set_fullscreen r False s)) = mapped_windows s
    \<and> layers (snd (set_fullscreen r False s)) = layers s"
  using assms by (simp add: set_fullscreen_def set_floating_off)

theorem fullscreen_off_not_floating_witness:
  "float_state (wins (upd 0 (\<lambda>v. v\<lparr>float_state := FULLSCREEN, group := Some group1\<rparr>) core0) 0)
     = FULLSCREEN
   \<and> fst (set_fullscreen 0 False
        (upd 0 (\<lambda>v. v\<lparr>float_state := FULLSCREEN, group := Some group1\<rparr>) core0)) = None
   \<and> float_state (wins (snd (set_fullscreen 0 False
        (upd 0 (\<lambda>v. v\<lparr>float_state := FULLSCREEN, group := Some group1\<rparr>) core0))) 0)
     = NOT_FLOATING"
proof -
  let ?s = "upd 0 (\<lambda>v. v\<lparr>float_state := FULLSCREEN, group := Some group1\<rparr>) core0"
  have h: "float_state (wins ?s 0) = FULLSCREEN"
    by (simp add: wins_upd)
  have n: "fst (set_floating 0 False ?s) = None"
    by (simp add: set_floating_def wins_upd Let_def)
  have t: "set_fullscreen 0 False ?s = set_floating 0 False ?s"
    "float_state (wins (snd (set_fullscreen 0 False ?s)) 0) = NOT_FLOATING"
    using fullscreen_off_not_floating [OF h] by blast+
  have n': "fst (set_fullscreen 0 False ?s) = None"
    by (simp only: t(1) n)
  show ?thesis
    using h n' t(2) by blast
qed

lemma set_floating_on_noop:
  "float_state (wins s r) \<noteq> NOT_FLOATING \<Longrightarrow> set_floating r True s = (None, s)"
  by (simp add: set_floating_def)

text \<open>
  C2. On a window in state FLOATING the floating setter called with true changes nothing,
  and the call with false that follows leaves the state NOT_FLOATING and the float memory
  holding the width and height the surface reports at that second call, also when the
  client has committed another size in between. (These assignments come before the
  workspace is notified, so they stand also when that notification raises for want of a
  workspace.)
\<close>

theorem floating_on_off:
  assumes "float_state (wins s r) = FLOATING"
  shows "set_floating r True s = (None, s)
    \<and> float_state (wins (snd (set_floating r False (snd (set_floating r True s)))) r)
        = NOT_FLOATING
    \<and> float_width (wins (snd (set_floating r False (snd (set_floating r True s)))) r)
        = width (wins (snd (set_floating r True s)) r)
    \<and> float_height (wins (snd (set_floating r False (snd (set_floating r True s)))) r)
        = height (wins (snd (set_floating r True s)) r)
    \<and> float_state (wins (snd (set_floating r False
          (surface_commit r w h (snd (set_floating r True s))))) r) = NOT_FLOATING
    \<and> float_width (wins (snd (set_floating r False
          (surface_commit r w h (snd (set_floating r True s))))) r) = w
    \<and> float_height (wins (snd (set_floating r False
          (surface_commit r w h (snd (set_floating r True s))))) r) = h"
proof -
  have a: "set_floating r True s = (None, s)"
    using assms by (simp add: set_floating_on_noop)
  have b: "float_state (wins (surface_commit r w h s) r) = FLOATING"
    "width (wins (surface_commit r w h s) r) = w"
    "height (wins (surface_commit r w h s) r) = h"
    using assms by (simp_all add: surface_commit_def wins_upd)
  show ?thesis
    using assms b by (simp add: a set_floating_off)
qed

theorem floating_on_off_witness:
  "float_state (wins (upd 0 (\<lambda>v. v\<lparr>float_state := FLOATING, group := Some group1\<rparr>) core0) 0)
     = FLOATING
   \<and> float_width (wins (snd (set_floating 0 False (surface_commit 0 800 600
        (snd (set_floating 0 True
          (upd 0 (\<lambda>v. v\<lparr>float_state := FLOATING, group := Some group1\<rparr>) core0)))))) 0) = 800
   \<and> float_height (wins (snd (set_floating 0 False (surface_commit 0 800 600
        (snd (set_floating 0 True
          (upd 0 (\<lambda>v. v\<lparr>float_state := FLOATING, group := Some group1\<rparr>) core0)))))) 0) = 600
   \<and> float_state (wins (snd (set_floating 0 False (surface_commit 0 800 600
        (snd (set_floating 0 True
          (upd 0 (\<lambda>v. v\<lparr>float_state := FLOATING, group := Some group1\<rparr>) core0)))))) 0)
     = NOT_FLOATING"
proof -
  let ?s = "upd 0 (\<lambda>v. v\<lparr>float_state := FLOATING, group := Some group1\<rparr>) core0"
  have h: "float_state (wins ?s 0) = FLOATING"
    by (simp add: wins_upd)
  from floating_on_off [OF h, of 800 600] h show ?thesis
    by blast
qed

section \<open>Raising a window that is not in the stacking list\<close>

lemma Window_place_above_absent:
  assumes "r \<notin> set (mapped_windows s)"
  shows "fst (Window_place r x y w h bw bc True mg s)
     = Some (case apply_margin mg (x, y, w, h) of Inl e \<Rightarrow> e | Inr g \<Rightarrow> ValueError)"
  using assms
  by (simp add: Window_place_def Let_def paint_borders_def upd_fields
      split: sum.splits prod.splits)

lemma reconfigure_absent:
  assumes "r \<notin> set (mapped_windows s)" "kind (wins s r) \<noteq> Static" "new \<noteq> MINIMIZED"
  shows "reconfigure_floating r (Some (x, y, w, h)) new s
     = (Some ValueError, snd (Window_place r x y w h (borderwidth (wins s r))
           (Some (bordercolor (wins s r))) True None s))"
proof -
  obtain e t where pt: "Window_place r x y w h (borderwidth (wins s r))
      (Some (bordercolor (wins s r))) True None s = (e, t)"
    by (cases "Window_place r x y w h (borderwidth (wins s r))
      (Some (bordercolor (wins s r))) True None s")
  have "e = Some ValueError"
    using Window_place_above_absent [OF assms(1), of x y w h "borderwidth (wins s r)"
      "Some (bordercolor (wins s r))" None] pt
    by (simp add: apply_margin_def)
  then show ?thesis
    using assms(2,3) by (simp add: reconfigure_floating_def place_def pt)
qed

lemma set_floating_early:
  "float_state (wins s r) = NOT_FLOATING \<Longrightarrow> no_screen_yet (wins s r) \<Longrightarrow>
   set_floating r True s = (None, upd r (\<lambda>v. v\<lparr>float_state := FLOATING\<rparr>) s)"
  by (simp add: set_floating_def no_screen_yet_def)

text \<open>
  C10, as the code has it. \<^verbatim>\<open>Window.place\<close> with \<^verbatim>\<open>above\<close> set raises whenever the
  window is not in \<^verbatim>\<open>mapped_windows\<close> (ValueError from \<^verbatim>\<open>list.remove\<close>, unless a
  malformed margin has raised before). So on a window of class \<^verbatim>\<open>Window\<close> or
  \<^verbatim>\<open>Internal\<close> that is not in the list, the floating setter called with true raises
  ValueError exactly when it gets as far as placing the window, which is when the window
  is NOT_FLOATING and its workspace is on a screen, and returns normally otherwise; the
  fullscreen and the maximized setter called with true raise ValueError whenever a screen
  is found, and AttributeError before any placement otherwise. A call that raises leaves
  the state of the window as it was.
\<close>

theorem place_above_faults_when_absent:
  assumes "r \<notin> set (mapped_windows s)" and "kind (wins s r) \<noteq> Static"
  shows "fst (Window_place r x y w h bw bc True mg s)
       = Some (case apply_margin mg (x, y, w, h) of Inl e \<Rightarrow> e | Inr g \<Rightarrow> ValueError)
    \<and> fst (Window_place r x y w h bw bc True None s) = Some ValueError
    \<and> fst (set_floating r True s)
       = (if float_state (wins s r) = NOT_FLOATING \<and> \<not> no_screen_yet (wins s r)
          then Some ValueError else None)
    \<and> fst (set_fullscreen r True s)
       = (case pick_screen r s of Inl e \<Rightarrow> Some e | Inr scr \<Rightarrow> Some ValueError)
    \<and> fst (set_maximized r True s)
       = (case pick_screen r s of Inl e \<Rightarrow> Some e | Inr scr \<Rightarrow> Some ValueError)
    \<and> float_state (wins (snd (set_floating r True s)) r)
       = (if float_state (wins s r) = NOT_FLOATING \<and> no_screen_yet (wins s r)
          then FLOATING else float_state (wins s r))
    \<and> float_state (wins (snd (set_fullscreen r True s)) r) = float_state (wins s r)
    \<and> float_state (wins (snd (set_maximized r True s)) r) = float_state (wins s r)"
proof -
  have p: "fst (Window_place r x y w h bw bc True mg s)
       = Some (case apply_margin mg (x, y, w, h) of Inl e \<Rightarrow> e | Inr g \<Rightarrow> ValueError)"
    by (rule Window_place_above_absent [OF assms(1)])
  have q: "fst (Window_place r x y w h bw bc True None s) = Some ValueError"
    using Window_place_above_absent [OF assms(1), of x y w h bw bc None]
    by (simp add: apply_margin_def)
  have fs: "\<And>x y w h. float_state (wins (snd (Window_place r x y w h (borderwidth (wins s r))
           (Some (bordercolor (wins s r))) True None s)) r) = float_state (wins s r)"
    using place_window_frame(1) [of r _ _ _ _ "borderwidth (wins s r)"
        "Some (bordercolor (wins s r))" True None s r] assms(2)
    by (simp add: place_def)
  have f: "fst (set_floating r True s)
       = (if float_state (wins s r) = NOT_FLOATING \<and> \<not> no_screen_yet (wins s r)
          then Some ValueError else None)
     \<and> float_state (wins (snd (set_floating r True s)) r)
       = (if float_state (wins s r) = NOT_FLOATING \<and> no_screen_yet (wins s r)
          then FLOATING else float_state (wins s r))"
  proof (cases "float_state (wins s r) = NOT_FLOATING")
    case False
    then show ?thesis by (simp add: set_floating_on_noop)
  next
    case True
    show ?thesis
    proof (cases "no_screen_yet (wins s r)")
      case True
      with \<open>float_state (wins s r) = NOT_FLOATING\<close> show ?thesis
        by (simp add: set_floating_early wins_upd)
    next
      case False
      then obtain scr where "(case group (wins s r) of None \<Rightarrow> None
          | Some g \<Rightarrow> grp_screen g) = Some scr"
        by (auto simp: no_screen_yet_def)
      with True False assms fs show ?thesis
        by (simp add: set_floating_def enablefloating_def reconfigure_absent Let_def)
    qed
  qed
  have g: "fst (set_fullscreen r True s)
       = (case pick_screen r s of Inl e \<Rightarrow> Some e | Inr scr \<Rightarrow> Some ValueError)
     \<and> fst (set_maximized r True s)
       = (case pick_screen r s of Inl e \<Rightarrow> Some e | Inr scr \<Rightarrow> Some ValueError)
     \<and> float_state (wins (snd (set_fullscreen r True s)) r) = float_state (wins s r)
     \<and> float_state (wins (snd (set_maximized r True s)) r) = float_state (wins s r)"
    using assms fs
    by (cases "pick_screen r s")
      (simp_all add: set_fullscreen_def set_maximized_def enablefloating_def
        reconfigure_absent)
  show ?thesis using p q f g by blast
qed

theorem place_above_faults_when_absent_witness:
  "0 \<notin> set (mapped_windows (upd 0 (\<lambda>v. v\<lparr>group := Some group1\<rparr>) core0))
   \<and> kind (wins (upd 0 (\<lambda>v. v\<lparr>group := Some group1\<rparr>) core0) 0) \<noteq> Static
   \<and> fst (Window_place 0 10 10 100 100 1 None True None
        (upd 0 (\<lambda>v. v\<lparr>group := Some group1\<rparr>) core0)) = Some ValueError
   \<and> fst (set_floating 0 True (upd 0 (\<lambda>v. v\<lparr>group := Some group1\<rparr>) core0))
       = Some ValueError
   \<and> fst (set_fullscreen 0 True (upd 0 (\<lambda>v. v\<lparr>group := Some group1\<rparr>) core0))
       = Some ValueError
   \<and> fst (set_maximized 0 True (upd 0 (\<lambda>v. v\<lparr>group := Some group1\<rparr>) core0))
       = Some ValueError"
proof -
  let ?s = "upd 0 (\<lambda>v. v\<lparr>group := Some group1\<rparr>) core0"
  have a: "0 \<notin> set (mapped_windows ?s)"
    by (simp add: upd_fields core0_def)
  have k: "kind (wins ?s 0) \<noteq> Static"
    by (simp add: wins_upd core0_def Window_init_def)
  have f: "float_state (wins ?s 0) = NOT_FLOATING \<and> \<not> no_screen_yet (wins ?s 0)"
    by (simp add: wins_upd core0_def Window_init_def group1_def no_screen_yet_def)
  have p: "pick_screen 0 ?s = Inr screen0"
    by (simp add: pick_screen_def wins_upd group1_def)
  from place_above_faults_when_absent [OF a k, of 10 10 100 100 1 None None] f p
  have t: "fst (Window_place 0 10 10 100 100 1 None True None ?s) = Some ValueError"
    "fst (set_floating 0 True ?s) = Some ValueError"
    "fst (set_fullscreen 0 True ?s) = Some ValueError"
    "fst (set_maximized 0 True ?s) = Some ValueError"
    by (simp_all add: apply_margin_def)
  show ?thesis
    using a k t by blast
qed

text \<open>
  C10 as stated fails: on a new window, which is in no list and has no workspace, the
  floating setter called with true returns normally; and on a static window that is in no
  list the fullscreen and the maximized setter return normally, \<^verbatim>\<open>Static.place\<close> not
  touching the list.
\<close>

theorem setters_return_when_unmapped:
  "0 \<notin> set (mapped_windows core0) \<and> \<not> mapped (wins core0 0)
   \<and> fst (set_floating 0 True core0) = None
   \<and> 2 \<notin> set (mapped_windows core_static) \<and> \<not> mapped (wins core_static 2)
   \<and> fst (set_fullscreen 2 True core_static) = None
   \<and> fst (set_maximized 2 True core_static) = None"
proof -
  have w: "wins core_static = (\<lambda>r. Window_init 640 480)
      (2 := (Window_init 640 480)\<lparr>kind := Static, float_state := FLOATING,
               group := Some group1\<rparr>)"
    "mapped_windows core_static = []"
    by (simp_all add: core_static_def core0_def wins_upd upd_fields)
  have p: "pick_screen 2 core_static = Inr screen0"
    by (simp add: pick_screen_def w group1_def)
  have pl: "fst (place 2 x y wd ht bw bc True None core_static) = None" for x y wd ht bw bc
    by (simp add: place_def Static_place_def w Window_init_def Let_def wins_upd)
  have a: "fst (set_fullscreen 2 True core_static) = None"
    "fst (set_maximized 2 True core_static) = None"
    by (simp_all add: set_fullscreen_def set_maximized_def p enablefloating_def
        reconfigure_outcome pl)
  have b: "0 \<notin> set (mapped_windows core0) \<and> \<not> mapped (wins core0 0)
      \<and> fst (set_floating 0 True core0) = None"
    by (simp add: set_floating_def core0_def Window_init_def)
  have c: "2 \<notin> set (mapped_windows core_static) \<and> \<not> mapped (wins core_static 2)"
    by (simp add: w Window_init_def)
  show ?thesis using a b c by blast
qed

section \<open>The float_change notification\<close>

lemma reconfigure_notifies:
  "float_change (snd (reconfigure_floating r geom new s))
     = float_change s
       + (if float_state (wins (snd (reconfigure_floating r geom new s)) r)
             \<noteq> float_state (wins s r) then 1 else 0)
   \<and> (fst (reconfigure_floating r geom new s) = None
        \<longrightarrow> float_state (wins (snd (reconfigure_floating r geom new s)) r) = new)
   \<and> (fst (reconfigure_floating r geom new s) \<noteq> None
        \<longrightarrow> float_state (wins (snd (reconfigure_floating r geom new s)) r)
            = float_state (wins s r))"
proof (cases "new = MINIMIZED")
  case True
  then show ?thesis
    by (simp add: reconfigure_minimized fire_float_change_def mark_floating_def wins_upd
        upd_fields wins_hide hide_fields)
next
  case False
  show ?thesis
  proof (cases geom)
    case None
    with False show ?thesis by (simp add: reconfigure_floating_def)
  next
    case (Some g)
    obtain x y w h where g: "g = (x, y, w, h)" by (cases g)
    obtain e t where pt: "place r x y w h (borderwidth (wins s r))
        (Some (bordercolor (wins s r))) True None s = (e, t)"
      by (cases "place r x y w h (borderwidth (wins s r))
        (Some (bordercolor (wins s r))) True None s")
    have fr: "float_state (wins t r) = float_state (wins s r)" "float_change t = float_change s"
      using place_window_frame(1) [of r x y w h "borderwidth (wins s r)"
          "Some (bordercolor (wins s r))" True None s r]
        place_fields(1) [of r x y w h "borderwidth (wins s r)"
          "Some (bordercolor (wins s r))" True None s]
      by (simp_all add: pt)
    show ?thesis
      using False fr
      by (cases e) (simp_all add: reconfigure_floating_def Some g pt fire_float_change_def
          mark_floating_def wins_upd upd_fields Let_def)
  qed
qed


lemma set_floating_notifies:
  "float_change (snd (set_floating r b s))
     = float_change s
       + (if float_state (wins (snd (set_floating r b s)) r) \<noteq> float_state (wins s r)
             \<and> fst (set_floating r b s) = None
             \<and> \<not> (b \<and> no_screen_yet (wins s r)) then 1 else 0)"
proof (cases "b \<and> float_state (wins s r) = NOT_FLOATING")
  case True
  show ?thesis
  proof (cases "no_screen_yet (wins s r)")
    case True
    with \<open>b \<and> float_state (wins s r) = NOT_FLOATING\<close> show ?thesis
      by (simp add: set_floating_def no_screen_yet_def upd_fields)
  next
    case False
    then obtain scr where scr: "(case group (wins s r) of None \<Rightarrow> None
        | Some g \<Rightarrow> grp_screen g) = Some scr"
      by (auto simp: no_screen_yet_def)
    have eq: "set_floating r True s = reconfigure_floating r
        (Some (scr_x scr + float_x (wins s r), scr_y scr + float_y (wins s r),
               float_width (wins s r), float_height (wins s r))) FLOATING s"
      using True scr by (simp add: set_floating_def enablefloating_def Let_def)
    show ?thesis
      using reconfigure_notifies [of r "Some (scr_x scr + float_x (wins s r),
          scr_y scr + float_y (wins s r), float_width (wins s r), float_height (wins s r))"
          FLOATING s] True False
      by (auto simp add: eq)
  qed
next
  case False
  then show ?thesis
    by (auto simp add: set_floating_def Let_def wins_upd upd_fields mark_floating_def
        fire_float_change_def split: option.splits)
qed

lemma enablefloating_notifies:
  "float_change (snd (enablefloating r geom new s))
     = float_change s
       + (if float_state (wins (snd (enablefloating r geom new s)) r) \<noteq> float_state (wins s r)
             \<and> fst (enablefloating r geom new s) = None then 1 else 0)"
  using reconfigure_notifies [of r geom new s]
  by (auto simp add: enablefloating_def)

lemma set_fullscreen_notifies:
  "float_change (snd (set_fullscreen r b s))
     = float_change s
       + (if float_state (wins (snd (set_fullscreen r b s)) r) \<noteq> float_state (wins s r)
             \<and> fst (set_fullscreen r b s) = None then 1 else 0)"
  using set_floating_notifies [of r False s]
  by (simp add: set_fullscreen_def enablefloating_notifies split: sum.splits)

lemma set_maximized_notifies:
  "float_change (snd (set_maximized r b s))
     = float_change s
       + (if float_state (wins (snd (set_maximized r b s)) r) \<noteq> float_state (wins s r)
             \<and> fst (set_maximized r b s) = None then 1 else 0)"
  using set_floating_notifies [of r False s]
  by (simp add: set_maximized_def enablefloating_notifies split: sum.splits)

lemma set_minimized_notifies:
  "float_change (snd (set_minimized r b s))
     = float_change s
       + (if float_state (wins (snd (set_minimized r b s)) r) \<noteq> float_state (wins s r)
             \<and> fst (set_minimized r b s) = None then 1 else 0)"
  using set_floating_notifies [of r False s]
  by (simp add: set_minimized_def enablefloating_notifies)

lemma call_setter_notifies:
  "float_change (snd (call_setter op r s))
     = float_change s
       + (if float_state (wins (snd (call_setter op r s)) r) \<noteq> float_state (wins s r)
             \<and> fst (call_setter op r s) = None
             \<and> \<not> (op = Floating True \<and> no_screen_yet (wins s r)) then 1 else 0)"
proof (cases op)
  case (Floating b)
  then show ?thesis using set_floating_notifies [of r b s] by auto
next
  case (Fullscreen b)
  then show ?thesis using set_fullscreen_notifies [of r b s] by simp
next
  case (Maximized b)
  then show ?thesis using set_maximized_notifies [of r b s] by simp
next
  case (Minimized b)
  then show ?thesis using set_minimized_notifies [of r b s] by simp
qed

text \<open>
  C5, as the code has it. A call of the floating, fullscreen, maximized or minimized
  setter that returns normally fires \<^verbatim>\<open>float_change\<close> exactly once when it has
  changed the state, except for the floating setter called with true on a window without
  a workspace shown on a screen, and not at all otherwise; no call, raising or not, fires
  it when the state is left as it was; and the floating setter called with true on a tiled
  window without a workspace shown on a screen only sets the state to FLOATING.
\<close>

theorem float_change_fired_once:
  "(fst (call_setter op r s) = None \<longrightarrow>
      float_change (snd (call_setter op r s))
        = float_change s
          + (if float_state (wins (snd (call_setter op r s)) r) \<noteq> float_state (wins s r)
                \<and> \<not> (op = Floating True \<and> no_screen_yet (wins s r)) then 1 else 0))
   \<and> (float_state (wins (snd (call_setter op r s)) r) = float_state (wins s r) \<longrightarrow>
      float_change (snd (call_setter op r s)) = float_change s)
   \<and> (float_state (wins s r) = NOT_FLOATING \<and> no_screen_yet (wins s r) \<longrightarrow>
      call_setter (Floating True) r s = (None, upd r (\<lambda>v. v\<lparr>float_state := FLOATING\<rparr>) s))"
  using call_setter_notifies [of op r s]
  by (auto simp add: set_floating_def no_screen_yet_def)

lemma core_mapped_facts:
  "wins core_mapped 0 = (Window_init 640 480)\<lparr>group := Some group1, mapped := True\<rparr>"
  "mapped_windows core_mapped = [0]"
  "float_change core_mapped = 0"
  by (simp_all add: core_mapped_def on_map_def Window_on_map_def Window_set_mapped_def
      wins_upd upd_fields track_def core0_def Window_init_def Let_def)

theorem float_change_fired_once_witness:
  "fst (call_setter (Fullscreen True) 0 core_mapped) = None
   \<and> float_state (wins (snd (call_setter (Fullscreen True) 0 core_mapped)) 0) = FULLSCREEN
   \<and> float_state (wins core_mapped 0) = NOT_FLOATING
   \<and> float_change (snd (call_setter (Fullscreen True) 0 core_mapped)) = 1
   \<and> float_state (wins (snd (call_setter (Floating False) 0 core0)) 0)
       = float_state (wins core0 0)
   \<and> float_change (snd (call_setter (Floating False) 0 core0)) = 0
   \<and> float_state (wins core0 0) = NOT_FLOATING \<and> no_screen_yet (wins core0 0)
   \<and> call_setter (Floating True) 0 core0
       = (None, upd 0 (\<lambda>v. v\<lparr>float_state := FLOATING\<rparr>) core0)"
proof -
  have p: "pick_screen 0 core_mapped = Inr screen0"
    by (simp add: pick_screen_def core_mapped_facts group1_def)
  have pl: "fst (place 0 x y wd ht bw bc True None core_mapped) = None" for x y wd ht bw bc
    by (simp add: place_def Window_place_def apply_margin_def paint_borders_def
        core_mapped_facts upd_fields Window_init_def)
  have a1: "fst (call_setter (Fullscreen True) 0 core_mapped) = None"
    using pl [of "scr_x screen0" "scr_y screen0" "scr_width screen0" "scr_height screen0"
        "borderwidth (wins core_mapped 0)" "Some (bordercolor (wins core_mapped 0))"]
    by (simp add: set_fullscreen_def p enablefloating_def reconfigure_outcome)
  have a2: "float_state (wins (snd (call_setter (Fullscreen True) 0 core_mapped)) 0)
      = FULLSCREEN"
    using reconfigure_notifies [of 0 "Some (scr_x screen0, scr_y screen0, scr_width screen0,
        scr_height screen0)" FULLSCREEN core_mapped] a1
    by (simp add: set_fullscreen_def p enablefloating_def)
  have a0: "float_state (wins core_mapped 0) = NOT_FLOATING"
    by (simp add: core_mapped_facts Window_init_def)
  have b0: "float_state (wins core0 0) = NOT_FLOATING" "no_screen_yet (wins core0 0)"
    "float_change core0 = 0"
    by (simp_all add: core0_def Window_init_def no_screen_yet_def)
  have b1: "float_state (wins (snd (call_setter (Floating False) 0 core0)) 0)
       = float_state (wins core0 0)"
    using b0 by (simp add: set_floating_def)
  from float_change_fired_once [of "Fullscreen True" 0 core_mapped] a1 a2 a0
  have r1: "float_change (snd (call_setter (Fullscreen True) 0 core_mapped)) = 1"
    by (simp add: core_mapped_facts)
  from float_change_fired_once [of "Floating False" 0 core0] b1 b0
  have r2: "float_change (snd (call_setter (Floating False) 0 core0)) = 0"
    by simp
  from float_change_fired_once [of "Floating True" 0 core0] b0
  have r3: "call_setter (Floating True) 0 core0
       = (None, upd 0 (\<lambda>v. v\<lparr>float_state := FLOATING\<rparr>) core0)"
    by blast
  show ?thesis
    using a1 a2 a0 r1 b1 r2 b0(1,2) r3 by blast
qed

text \<open>
  C5 as stated fails on a new window, which has no workspace: the floating setter called
  with true changes the state and fires nothing.
\<close>

theorem float_change_missing_early:
  "float_state (wins core0 0) = NOT_FLOATING
   \<and> fst (call_setter (Floating True) 0 core0) = None
   \<and> float_state (wins (snd (call_setter (Floating True) 0 core0)) 0) = FLOATING
   \<and> float_change (snd (call_setter (Floating True) 0 core0)) = float_change core0"
  by (simp add: set_floating_def core0_def Window_init_def wins_upd upd_fields)

section \<open>Fullscreen and maximize without a workspace\<close>

text \<open>
  C4. On a new window, which has no workspace, with no screen to be found, the fullscreen
  and the maximized setter called with true raise AttributeError at
  \<^verbatim>\<open>self.group.screen\<close> and leave the state as it was, where the floating setter guards
  the same access with \<^verbatim>\<open>self.group and self.group.screen\<close> and returns normally.
\<close>

theorem fullscreen_without_group_raises:
  "group (wins core_no_screen 0) = None
   \<and> find_closest_screen core_no_screen (win_x (wins core_no_screen 0))
        (win_y (wins core_no_screen 0)) = None
   \<and> set_fullscreen 0 True core_no_screen = (Some AttributeError, core_no_screen)
   \<and> set_maximized 0 True core_no_screen = (Some AttributeError, core_no_screen)
   \<and> fst (set_floating 0 True core_no_screen) = None"
  by (simp add: set_fullscreen_def set_maximized_def set_floating_def pick_screen_def
      core_no_screen_def core0_def Window_init_def)

section \<open>The mapped flag and the stacking lists\<close>

lemma track_distinct: "distinct xs \<Longrightarrow> distinct (track r m xs)"
  by (simp add: track_def)

lemma track_other: "q \<noteq> r \<Longrightarrow> (q \<in> set (track r m xs)) = (q \<in> set xs)"
  by (simp add: track_def)

lemma track_self: "distinct xs \<Longrightarrow> (r \<in> set (track r m xs)) = m"
  by (simp add: track_def)

lemma on_map_set_mapped: "on_map r s = set_mapped r True s"
  by (simp add: on_map_def set_mapped_def Static_on_map_def Window_on_map_def Let_def)

lemma on_unmap_set_mapped: "on_unmap r s = set_mapped r False s"
  by (simp add: on_unmap_def set_mapped_def Static_on_unmap_def Window_on_unmap_def Let_def)

lemma set_mapped_lists:
  "mapped_windows (set_mapped r m s)
     = (if kind (wins s r) = Static \<and> is_layer (wins s r) then mapped_windows s
        else track r m (mapped_windows s))"
  "layers (set_mapped r m s)
     = (if kind (wins s r) = Static \<and> is_layer (wins s r)
        then (layers s)(win_output (wins s r) :=
               (layers s (win_output (wins s r)))(client_layer (wins s r) :=
                  track r m (layers s (win_output (wins s r)) (client_layer (wins s r)))))
        else layers s)"
  by (simp_all add: set_mapped_def Static_set_mapped_def Window_set_mapped_def Let_def
      wins_upd upd_fields)

lemma set_mapped_consistent:
  assumes "stacking_consistent s"
  shows "stacking_consistent (set_mapped r m s)"
proof -
  from assms have d: "distinct (mapped_windows s)" "\<And>out l. distinct (layers s out l)"
    and f: "\<And>q. mapped (wins s q) = (q \<in> set (tracker s q))"
    by (simp_all add: stacking_consistent_def)
  show ?thesis
  proof (cases "kind (wins s r) = Static \<and> is_layer (wins s r)")
    case True
    have "distinct (mapped_windows (set_mapped r m s))"
      using True d by (simp add: set_mapped_lists)
    moreover have "\<And>out l. distinct (layers (set_mapped r m s) out l)"
      using True d by (simp add: set_mapped_lists track_distinct)
    moreover have "mapped (wins (set_mapped r m s) q) = (q \<in> set (tracker (set_mapped r m s) q))"
      for q
    proof (cases "q = r")
      case True
      with \<open>kind (wins s r) = Static \<and> is_layer (wins s r)\<close> d show ?thesis
        by (simp add: tracker_def wins_set_mapped set_mapped_lists track_self)
    next
      case False
      with \<open>kind (wins s r) = Static \<and> is_layer (wins s r)\<close> f [of q] show ?thesis
        by (simp add: tracker_def wins_set_mapped set_mapped_lists track_other)
    qed
    ultimately show ?thesis
      by (simp add: stacking_consistent_def)
  next
    case False
    have "distinct (mapped_windows (set_mapped r m s))"
      using False d by (auto simp add: set_mapped_lists track_distinct)
    moreover have "\<And>out l. distinct (layers (set_mapped r m s) out l)"
      using False d by (auto simp add: set_mapped_lists)
    moreover have "mapped (wins (set_mapped r m s) q) = (q \<in> set (tracker (set_mapped r m s) q))"
      for q
    proof (cases "q = r")
      case True
      with False d show ?thesis
        by (auto simp add: tracker_def wins_set_mapped set_mapped_lists track_self)
    next
      case qr: False
      with False f [of q] show ?thesis
        by (auto simp add: tracker_def wins_set_mapped set_mapped_lists track_other)
    qed
    ultimately show ?thesis
      by (simp add: stacking_consistent_def)
  qed
qed

lemma handle_consistent: "stacking_consistent s \<Longrightarrow> stacking_consistent (handle e s)"
  by (cases e) (simp_all add: on_map_set_mapped on_unmap_set_mapped set_mapped_consistent)

lemma run_consistent: "stacking_consistent s \<Longrightarrow> stacking_consistent (run evs s)"
  by (induction evs arbitrary: s) (simp_all add: handle_consistent)

lemma distinct_count_once: "distinct xs \<Longrightarrow> (count_list xs x = 1) = (x \<in> set xs)"
  by (induction xs) auto

lemma consistent_once:
  assumes "stacking_consistent s"
  shows "mapped (wins s r) = (count_list (tracker s r) r = 1)"
proof -
  have d: "distinct (tracker s r)"
    using assms by (simp add: stacking_consistent_def tracker_def)
  have "mapped (wins s r) = (r \<in> set (tracker s r))"
    using assms by (simp add: stacking_consistent_def)
  also have "\<dots> = (count_list (tracker s r) r = 1)"
    by (rule distinct_count_once [OF d, symmetric])
  finally show ?thesis .
qed

text \<open>
  C1. Start from a state in which no list holds a window twice and the flag of every
  window says whether the window is in its list (\<^verbatim>\<open>mapped_windows\<close>, or the list of
  its layer on its output for a layer surface), as when the compositor starts. Then after
  every sequence of map signals, unmap signals and assignments to \<^verbatim>\<open>mapped\<close>, on any
  windows, the state is again such a state, and for every window the flag is set if and
  only if the window occurs exactly once in its list.
\<close>

theorem mapped_iff_listed_once:
  assumes "stacking_consistent s"
  shows "stacking_consistent (run evs s)
    \<and> (\<forall>r. mapped (wins (run evs s) r) = (count_list (tracker (run evs s) r) r = 1))"
  using assms by (simp add: run_consistent consistent_once)

lemma core_layer_facts:
  "wins core_layer = (\<lambda>r. Window_init 640 480)
      (1 := (Window_init 640 480)\<lparr>kind := Static, float_state := FLOATING, is_layer := True,
                    win_output := 0, client_layer := TOP\<rparr>)"
  "mapped_windows core_layer = []"
  "layers core_layer = (\<lambda>out l. [])"
  by (simp_all add: core_layer_def core0_def wins_upd upd_fields)

theorem mapped_iff_listed_once_witness:
  "stacking_consistent core_layer
   \<and> mapped_windows (run [Set_mapped 1 True, Map_signal 0, Map_signal 0, Unmap_signal 1,
        Map_signal 2] core_layer) = [0, 2]
   \<and> layers (run [Set_mapped 1 True, Map_signal 0, Map_signal 0, Unmap_signal 1,
        Map_signal 2] core_layer) 0 TOP = []
   \<and> layers (run [Set_mapped 1 True, Map_signal 0] core_layer) 0 TOP = [1]
   \<and> (\<forall>r. mapped (wins (run [Set_mapped 1 True, Map_signal 0, Map_signal 0, Unmap_signal 1,
        Map_signal 2] core_layer) r)
        = (count_list (tracker (run [Set_mapped 1 True, Map_signal 0, Map_signal 0,
             Unmap_signal 1, Map_signal 2] core_layer) r) r = 1))"
proof -
  have h: "stacking_consistent core_layer"
    by (simp add: stacking_consistent_def tracker_def core_layer_facts Window_init_def)
  have a: "mapped_windows (run [Set_mapped 1 True, Map_signal 0, Map_signal 0, Unmap_signal 1,
        Map_signal 2] core_layer) = [0, 2]"
    by (simp add: on_map_set_mapped on_unmap_set_mapped set_mapped_lists wins_set_mapped
        core_layer_facts Window_init_def track_def)
  have b: "layers (run [Set_mapped 1 True, Map_signal 0, Map_signal 0, Unmap_signal 1,
        Map_signal 2] core_layer) 0 TOP = []"
    by (simp add: on_map_set_mapped on_unmap_set_mapped set_mapped_lists wins_set_mapped
        core_layer_facts Window_init_def track_def)
  have c: "layers (run [Set_mapped 1 True, Map_signal 0] core_layer) 0 TOP = [1]"
    by (simp add: on_map_set_mapped on_unmap_set_mapped set_mapped_lists wins_set_mapped
        core_layer_facts Window_init_def track_def)
  from mapped_iff_listed_once [OF h, of "[Set_mapped 1 True, Map_signal 0, Map_signal 0,
      Unmap_signal 1, Map_signal 2]"] h a b c
  show ?thesis by blast
qed

section \<open>Rounding of floats\<close>

lemma py_round_of_int: "py_round (of_int z) = z"
  by (simp add: py_round_def)

lemma binade_of_int:
  assumes "m \<noteq> 0"
  shows "binade (of_int m) = bitlen \<bar>m\<bar> - 1"
proof -
  have pos: "0 < \<bar>m\<bar>" using assms by simp
  have b: "2 ^ nat (bitlen \<bar>m\<bar> - 1) \<le> \<bar>m\<bar>"
    using bitlen_bounds [OF pos] by simp
  have ge: "1 \<le> bitlen \<bar>m\<bar>"
    using pos by (simp add: bitlen_def floorlog_def)
  have "(2::rat) powi (bitlen \<bar>m\<bar> - 1) = of_int (2 ^ nat (bitlen \<bar>m\<bar> - 1))"
    using ge by (simp add: power_int_def)
  also have "\<dots> \<le> of_int \<bar>m\<bar>"
    using b by (simp only: of_int_le_iff)
  finally have "(2::rat) powi (bitlen \<bar>m\<bar> - 1) \<le> \<bar>of_int m\<bar>"
    by simp
  moreover have "bitlen 1 = 1"
    by (simp add: bitlen_def floorlog_def)
  ultimately show ?thesis
    by (simp add: binade_def quotient_of_int Let_def)
qed

lemma to_double_of_int:
  assumes "\<bar>m\<bar> < 2 ^ 53"
  shows "to_double (of_int m) = Some (of_int m)"
proof (cases "m = 0")
  case True
  then show ?thesis by (simp add: to_double_def py_round_def)
next
  case False
  define e where "e = bitlen \<bar>m\<bar> - 1"
  have pos: "0 < \<bar>m\<bar>" using False by simp
  have e0: "0 \<le> e"
    using pos by (simp add: e_def bitlen_def floorlog_def)
  have "(2::int) ^ nat e \<le> \<bar>m\<bar>"
    using bitlen_bounds [OF pos] by (simp add: e_def)
  with assms have "(2::int) ^ nat e < 2 ^ 53" by linarith
  then have "nat e < 53" by (rule power_less_imp_less_exp [of "2::int", rotated]) simp
  then have e52: "e \<le> 52" by linarith
  have be: "binade (of_int m) = e"
    using binade_of_int [OF False] by (simp add: e_def)
  define j where "j = nat (52 - e)"
  have u: "(2::rat) powi (max e (- 1022) - 52) = 1 / 2 ^ j"
    using e0 e52 by (simp add: j_def power_int_def max_def inverse_eq_divide power_one_over
        nat_diff_distrib' split: if_splits) 
  have q: "of_int m / (1 / (2::rat) ^ j) = of_int (m * 2 ^ j)"
    by simp
  have r: "of_int (py_round (of_int m / (1 / (2::rat) ^ j))) * (1 / 2 ^ j) = (of_int m :: rat)"
    by (simp only: q py_round_of_int) simp
  have small: "\<not> (2::rat) ^ 1024 \<le> \<bar>of_int m\<bar>"
  proof -
    have "\<bar>of_int m :: rat\<bar> < 2 ^ 53"
      using assms by (metis of_int_abs of_int_less_iff of_int_numeral of_int_power)
    also have "(2::rat) ^ 53 \<le> 2 ^ 1024"
      by (rule power_increasing) simp_all
    finally show ?thesis by simp
  qed
  show ?thesis
    unfolding to_double_def Let_def be u r using small by simp
qed

lemma round_sub_integral:
  assumes "\<bar>a\<bar> < 2 ^ 53" "\<bar>a - n\<bar> < 2 ^ 53"
  shows "round_sub a (of_int n) = Inr (a - n)"
proof -
  have "to_double (of_int a - of_int n) = Some (of_int (a - n))"
    using to_double_of_int [OF assms(2)] by simp
  moreover have "py_round (of_int a - of_int n) = a - n"
    using py_round_of_int [of "a - n"] by simp
  ultimately show ?thesis
    by (simp add: round_sub_def to_double_of_int [OF assms(1)])
qed

lemma py_round_nearest: "\<bar>of_int (py_round q) - q\<bar> \<le> 1 / 2"
  using floor_correct [of q] by (auto simp add: py_round_def Let_def)

text \<open>A tie goes to the even int: with the output at x = 100 and the closest point at
  104.5 the difference is -4.5 and the rounded value -4.\<close>

lemma to_double_half: "to_double (- (9 / 2)) = Some (- (9 / 2))"
  by code_simp

lemma py_round_half: "py_round (- (9 / 2)) = - 4"
  by code_simp

lemma round_sub_tie: "round_sub 100 (209 / 2) = Inr (- 4)"
  using to_double_of_int [of 100] to_double_half
  by (simp add: round_sub_def py_round_half)

section \<open>The constraint rectangle of a popup\<close>

lemma nested_popup_init:
  "XdgPopupWindow_init layout (Popup_parent p) g
     = Inr \<lparr>popup_output = popup_output p, output_box = output_box p,
            unconstrained_from = output_box p\<rparr>"
  by (simp add: XdgPopupWindow_init_def)

lemma nested_popups_inherit:
  "\<exists>q. nested_popups layout p gs = Inr q \<and> popup_output q = popup_output p
       \<and> output_box q = output_box p"
proof (induction gs arbitrary: p)
  case Nil
  show ?case by simp
next
  case (Cons g gs)
  let ?q0 = "\<lparr>popup_output = popup_output p, output_box = output_box p,
            unconstrained_from = output_box p\<rparr>"
  from Cons.IH [of ?q0] obtain q where "nested_popups layout ?q0 gs = Inr q"
    "popup_output q = popup_output p" "output_box q = output_box p"
    by auto
  then show ?case
    by (simp add: nested_popup_init)
qed

text \<open>
  C8. A first-level popup, whose parent is a window, takes the closest point (lx, ly) of
  the layout to the parent's position plus the origin of the popup's geometry, takes the
  output at that point, and gets as constraint rectangle the geometry of that output with
  x replaced by \<^verbatim>\<open>round(output.x - lx)\<close> and y by \<^verbatim>\<open>round(output.y - ly)\<close>, the
  float difference rounded to the nearest int: for an integral point that is exactly
  output.x - lx and output.y - ly (all magnitudes below \<open>2 ^ 53\<close>), and in general an int
  within a half of the difference as a double. A nested popup, whose parent is a popup,
  gets the output and the constraint rectangle of its parent, and so does every popup
  nested further below. In both cases the popup is unconstrained from exactly that
  rectangle.
\<close>

theorem popup_constraint_box:
  "(closest_point layout (win_x v + box_x g) (win_y v + box_y g) = (lx, ly)
      \<and> output_at layout lx ly = Some out
      \<and> round_sub (box_x (out_geometry out)) lx = Inr rx \<and> c_int rx
      \<and> round_sub (box_y (out_geometry out)) ly = Inr ry \<and> c_int ry
    \<longrightarrow> XdgPopupWindow_init layout (Window_parent v) g
        = Inr \<lparr>popup_output = out,
               output_box = \<lparr>box_x = rx, box_y = ry,
                             box_width = box_width (out_geometry out),
                             box_height = box_height (out_geometry out)\<rparr>,
               unconstrained_from = \<lparr>box_x = rx, box_y = ry,
                             box_width = box_width (out_geometry out),
                             box_height = box_height (out_geometry out)\<rparr>\<rparr>)
   \<and> (\<bar>a\<bar> < 2 ^ 53 \<and> \<bar>a - n\<bar> < 2 ^ 53 \<longrightarrow> round_sub a (of_int n) = Inr (a - n))
   \<and> (round_sub a b = Inr z \<longrightarrow>
        (\<exists>fa d. to_double (of_int a) = Some fa \<and> to_double (fa - b) = Some d
           \<and> z = py_round d \<and> \<bar>of_int z - d\<bar> \<le> 1 / 2))
   \<and> XdgPopupWindow_init layout (Popup_parent p) g
        = Inr \<lparr>popup_output = popup_output p, output_box = output_box p,
               unconstrained_from = output_box p\<rparr>
   \<and> (\<exists>q. nested_popups layout p gs = Inr q \<and> popup_output q = popup_output p
          \<and> output_box q = output_box p)"
proof -
  have first: "closest_point layout (win_x v + box_x g) (win_y v + box_y g) = (lx, ly)
      \<and> output_at layout lx ly = Some out
      \<and> round_sub (box_x (out_geometry out)) lx = Inr rx \<and> c_int rx
      \<and> round_sub (box_y (out_geometry out)) ly = Inr ry \<and> c_int ry
    \<longrightarrow> XdgPopupWindow_init layout (Window_parent v) g
        = Inr \<lparr>popup_output = out,
               output_box = \<lparr>box_x = rx, box_y = ry,
                             box_width = box_width (out_geometry out),
                             box_height = box_height (out_geometry out)\<rparr>,
               unconstrained_from = \<lparr>box_x = rx, box_y = ry,
                             box_width = box_width (out_geometry out),
                             box_height = box_height (out_geometry out)\<rparr>\<rparr>"
    by (simp add: XdgPopupWindow_init_def)
  have exact: "\<bar>a\<bar> < 2 ^ 53 \<and> \<bar>a - n\<bar> < 2 ^ 53 \<longrightarrow> round_sub a (of_int n) = Inr (a - n)"
    using round_sub_integral [of a n] by blast
  have near: "round_sub a b = Inr z \<longrightarrow>
        (\<exists>fa d. to_double (of_int a) = Some fa \<and> to_double (fa - b) = Some d
           \<and> z = py_round d \<and> \<bar>of_int z - d\<bar> \<le> 1 / 2)"
  proof
    assume "round_sub a b = Inr z"
    then obtain fa d where "to_double (of_int a) = Some fa" "to_double (fa - b) = Some d"
      "z = py_round d"
      by (auto simp add: round_sub_def split: option.splits)
    with py_round_nearest [of d]
    show "\<exists>fa d. to_double (of_int a) = Some fa \<and> to_double (fa - b) = Some d
           \<and> z = py_round d \<and> \<bar>of_int z - d\<bar> \<le> 1 / 2"
      by blast
  qed
  show ?thesis
    using first exact near nested_popup_init [of layout p g]
      nested_popups_inherit [of layout p gs]
    by blast
qed

theorem popup_constraint_box_witness:
  "closest_point layout0 (win_x ((Window_init 640 480)\<lparr>win_x := 100, win_y := 100\<rparr>) + 5)
       (win_y ((Window_init 640 480)\<lparr>win_x := 100, win_y := 100\<rparr>) + 5) = (105, 105)
   \<and> output_at layout0 105 105 = Some output0
   \<and> round_sub 100 105 = Inr (- 5) \<and> round_sub 0 105 = Inr (- 105)
   \<and> XdgPopupWindow_init layout0
        (Window_parent ((Window_init 640 480)\<lparr>win_x := 100, win_y := 100\<rparr>))
        \<lparr>box_x = 5, box_y = 5, box_width = 200, box_height = 300\<rparr>
      = Inr \<lparr>popup_output = output0,
             output_box = \<lparr>box_x = - 5, box_y = - 105, box_width = 1920, box_height = 1080\<rparr>,
             unconstrained_from
               = \<lparr>box_x = - 5, box_y = - 105, box_width = 1920, box_height = 1080\<rparr>\<rparr>"
proof -
  let ?v = "(Window_init 640 480)\<lparr>win_x := 100, win_y := 100\<rparr>"
  let ?g = "\<lparr>box_x = 5, box_y = 5, box_width = 200, box_height = 300\<rparr>"
  note t = popup_constraint_box [of layout0 ?v ?g 105 105 output0 "- 5" "- 105"]
  have h: "closest_point layout0 (win_x ?v + box_x ?g) (win_y ?v + box_y ?g) = (105, 105)"
    "output_at layout0 105 105 = Some output0"
    by (simp_all add: layout0_def)
  have x: "round_sub 100 105 = Inr (- 5)"
    using popup_constraint_box [of _ _ _ _ _ _ _ _ 100 105] by simp
  have y: "round_sub 0 105 = Inr (- 105)"
    using popup_constraint_box [of _ _ _ _ _ _ _ _ 0 105] by simp
  have c: "c_int (- 5)" "c_int (- 105)"
    by (simp_all add: c_int_def)
  have g: "box_x (out_geometry output0) = 100" "box_y (out_geometry output0) = 0"
    "box_width (out_geometry output0) = 1920" "box_height (out_geometry output0) = 1080"
    by (simp_all add: output0_def)
  from t h x y c g
  have "XdgPopupWindow_init layout0 (Window_parent ?v) ?g
      = Inr \<lparr>popup_output = output0,
             output_box = \<lparr>box_x = - 5, box_y = - 105, box_width = 1920, box_height = 1080\<rparr>,
             unconstrained_from
               = \<lparr>box_x = - 5, box_y = - 105, box_width = 1920, box_height = 1080\<rparr>\<rparr>"
    by simp
  then show ?thesis
    using h x y by simp
qed

end
